theory Spec2Isabelle
  imports Main "HOL-Library.AList"
begin

section \<open>Python values, errors and strings\<close>

text \<open>
  The program is a Python script (\<^verbatim>\<open>youtube_audio_transcribe.py\<close>). A Python \<^verbatim>\<open>str\<close> is
  modelled as a \<^typ>\<open>string\<close>; every character is read as a code point below 256. Exceptions
  are values of \<open>py_error\<close>; a function that can raise returns \<open>py_error + 'a\<close>.
\<close>

datatype py_error =
    ValueError
  | TypeError
  | KeyError
  | EOFError
  | FileNotFoundError
  | IsADirectoryError
  | NotADirectoryError
  | CalledProcessError
  | JSONDecodeError
  | RequestError string
  | UnknownValueError
  | OtherError string

text \<open>
  The values a name of the script can be bound to: what \<^verbatim>\<open>json.loads\<close> returns
  (\<^verbatim>\<open>None\<close>, booleans, numbers, strings, lists, dicts in insertion order) and the
  \<^verbatim>\<open>speech_recognition.AudioFile\<close> object that the \<^verbatim>\<open>with\<close> statement of
  \<^verbatim>\<open>convert_audio_to_text\<close> binds (it remembers the path it was opened on).
\<close>

datatype pyval =
    PNone
  | PBool bool
  | PInt int
  | PStr string
  | PList "pyval list"
  | PDict "(string \<times> pyval) list"
  | PAudioFile string

abbreviation NL :: char where "NL \<equiv> CHR 0x0A"
abbreviation CR :: char where "CR \<equiv> CHR 0x0D"
abbreviation SEP :: char where "SEP \<equiv> CHR ''/''"

text \<open>\<^verbatim>\<open>str.isspace\<close> on one character, for code points below 256.\<close>

definition isspace :: "char \<Rightarrow> bool" where
  "isspace c = (of_char c \<in> {9, 10, 11, 12, 13, 28, 29, 30, 31, 32, 133, 160 :: nat})"

text \<open>\<^verbatim>\<open>str.strip()\<close> with no argument: whitespace is removed at both ends.\<close>

definition strip :: "string \<Rightarrow> string" where
  "strip s = rev (dropWhile isspace (rev (dropWhile isspace s)))"

text \<open>\<^verbatim>\<open>s.startswith(p)\<close> and \<^verbatim>\<open>s.endswith(p)\<close>.\<close>

definition startswith :: "string \<Rightarrow> string \<Rightarrow> bool" where
  "startswith s p = (take (length p) s = p)"

definition endswith :: "string \<Rightarrow> string \<Rightarrow> bool" where
  "endswith s p = (length p \<le> length s \<and> drop (length s - length p) s = p)"

text \<open>
  \<^verbatim>\<open>re.sub('[...]', repl, s)\<close> for a pattern that is one character class: the string is
  scanned from the left, every character of the class is a match and is replaced by
  \<open>repl\<close>, every other character is copied.
\<close>

fun re_sub_class :: "char list \<Rightarrow> string \<Rightarrow> string \<Rightarrow> string" where
  "re_sub_class cls repl [] = []"
| "re_sub_class cls repl (c # s) =
     (if c \<in> set cls then repl @ re_sub_class cls repl s
      else c # re_sub_class cls repl s)"

text \<open>The class of line 20, \<^verbatim>\<open>[<>:"/\\|?*]\<close>: nine characters.\<close>

definition reserved :: "char list" where
  "reserved = [CHR ''<'', CHR ''>'', CHR '':'', CHR 0x22, CHR ''/'', CHR 0x5C,
               CHR ''|'', CHR ''?'', CHR ''*'']"

definition sanitize :: "string \<Rightarrow> string" where
  "sanitize video_title = re_sub_class reserved ''_'' video_title"

section \<open>The external collaborators\<close>

text \<open>
  The download tool, the audio decoder, the JSON parser and the recognition backend are
  not part of the script. They are parameters of the model:
  \<^item> \<open>get_title_stdout link\<close>: the decoded standard output of \<^verbatim>\<open>yt-dlp --get-title link\<close>;
  \<^item> \<open>extract_audio link\<close>: the audio data \<^verbatim>\<open>yt-dlp -x --audio-format mp3\<close> produces for
    \<open>link\<close>, or the \<^verbatim>\<open>CalledProcessError\<close> of a non-zero exit;
  \<^item> \<open>check_output command\<close>: the output of the shell command, or its error;
  \<^item> \<open>json_loads text\<close>: the value \<^verbatim>\<open>json.loads\<close> returns, or its error;
  \<^item> \<open>decode_audio data\<close>: the waveform \<^verbatim>\<open>AudioFileClip\<close> decodes from the audio data;
  \<^item> \<open>recognize_google wav\<close>: the transcript, or the exception the backend call raises.
\<close>

record env =
  get_title_stdout :: "string \<Rightarrow> string"
  extract_audio :: "pyval \<Rightarrow> py_error + string"
  check_output :: "string \<Rightarrow> py_error + string"
  json_loads :: "string \<Rightarrow> py_error + pyval"
  decode_audio :: "string \<Rightarrow> py_error + string"
  recognize_google :: "string \<Rightarrow> py_error + string"

section \<open>Title Resolver\<close>

text \<open>
  \<^verbatim>\<open>get_video_title\<close>, lines 17 to 21: the tool's output is stripped, then every reserved
  character is replaced by an underscore.
\<close>

definition get_video_title :: "env \<Rightarrow> string \<Rightarrow> string" where
  "get_video_title E link =
     (let video_title = strip (get_title_stdout E link);
          sanitized_title = sanitize video_title
      in sanitized_title)"

section \<open>Paths\<close>

text \<open>
  \<^verbatim>\<open>os.path\<close> on a POSIX system. \<open>rfind p c\<close> is \<^verbatim>\<open>p.rfind(c)\<close>: the index of the last
  occurrence, or \<open>-1\<close>.
\<close>

fun rfind_aux :: "string \<Rightarrow> char \<Rightarrow> int \<Rightarrow> int \<Rightarrow> int" where
  "rfind_aux [] c i found = found"
| "rfind_aux (x # xs) c i found = rfind_aux xs c (i + 1) (if x = c then i else found)"

definition rfind :: "string \<Rightarrow> char \<Rightarrow> int" where
  "rfind p c = rfind_aux p c 0 (- 1)"

text \<open>
  \<^verbatim>\<open>os.path.join(a, b)\<close>: an absolute \<open>b\<close> replaces \<open>a\<close>; otherwise \<open>b\<close> is appended,
  after a separator unless \<open>a\<close> is empty or already ends with one.
\<close>

definition os_path_join :: "string \<Rightarrow> string \<Rightarrow> string" where
  "os_path_join a b =
     (if startswith b ''/'' then b
      else if a = [] \<or> endswith a ''/'' then a @ b
      else a @ ''/'' @ b)"

text \<open>
  \<^verbatim>\<open>os.path.splitext(p)\<close>: the split is at the last dot, when that dot lies in the last
  component and some character of the component before it is not a dot.
\<close>

definition os_path_splitext :: "string \<Rightarrow> string \<times> string" where
  "os_path_splitext p =
     (let sepIndex = rfind p SEP;
          dotIndex = rfind p (CHR ''.'')
      in if dotIndex > sepIndex \<and>
            list_ex (\<lambda>c. c \<noteq> CHR ''.'')
              (take (nat (dotIndex - (sepIndex + 1))) (drop (nat (sepIndex + 1)) p))
         then (take (nat dotIndex) p, drop (nat dotIndex) p)
         else (p, []))"

definition os_path_basename :: "string \<Rightarrow> string" where
  "os_path_basename p = drop (nat (rfind p SEP + 1)) p"

text \<open>
  \<^verbatim>\<open>os.path.splitext\<close> starts with \<^verbatim>\<open>os.fspath\<close>, which raises \<^verbatim>\<open>TypeError\<close> for a
  value that is neither a string nor path-like.
\<close>

fun splitext_val :: "pyval \<Rightarrow> py_error + string \<times> string" where
  "splitext_val (PStr p) = Inr (os_path_splitext p)"
| "splitext_val v = Inl TypeError"

section \<open>The world: files, console, standard input\<close>

text \<open>
  The file system is a list of regular files, each a pair of its absolute path and its
  stored characters, in the order a directory listing yields them; a path names one file
  (no normalisation of \<^verbatim>\<open>.\<close>, \<^verbatim>\<open>..\<close> or doubled separators, no links). Directories are
  not stored: a path is a directory exactly when some file lies below it. So there are no
  empty directories, \<^verbatim>\<open>os.makedirs\<close> has no effect, and opening a file for writing always
  succeeds and brings the directories above it into being. \<open>trace\<close> records, in order,
  every file that was closed after writing and every file that was removed.
\<close>

datatype fs_event = Written string | Removed string

record world =
  cwd :: string
  files :: "(string \<times> string) list"
  console :: "string list"
  stdin :: "string list"
  trace :: "fs_event list"

text \<open>A relative path is taken from the working directory.\<close>

definition resolve :: "world \<Rightarrow> string \<Rightarrow> string" where
  "resolve w p = os_path_join (cwd w) p"

definition lookup_file :: "world \<Rightarrow> string \<Rightarrow> string option" where
  "lookup_file w p = map_of (files w) (resolve w p)"

text \<open>
  \<open>dir_prefix\<close> is a directory's absolute path with its final separator; \<open>below\<close> lists,
  for every file below the directory, the rest of its path, in the order of the file
  system.
\<close>

definition dir_prefix :: "world \<Rightarrow> string \<Rightarrow> string" where
  "dir_prefix w directory = os_path_join (resolve w directory) []"

definition below :: "world \<Rightarrow> string \<Rightarrow> string list" where
  "below w directory =
     (let d = dir_prefix w directory
      in map (drop (length d))
           (filter (\<lambda>p. startswith p d \<and> length d < length p) (map fst (files w))))"

definition is_dir :: "world \<Rightarrow> string \<Rightarrow> bool" where
  "is_dir w p = (below w p \<noteq> [])"

text \<open>The error of an operation on a path that names no regular file.\<close>

definition no_file :: "world \<Rightarrow> string \<Rightarrow> py_error" where
  "no_file w p = (if is_dir w p then IsADirectoryError else FileNotFoundError)"

text \<open>Reading all bytes of a file (what the audio decoder does).\<close>

definition read_file :: "string \<Rightarrow> world \<Rightarrow> py_error + string" where
  "read_file p w =
     (case lookup_file w p of None \<Rightarrow> Inl (no_file w p) | Some c \<Rightarrow> Inr c)"

text \<open>
  \<^verbatim>\<open>open(p, "r").read()\<close>: text mode with universal newlines. Every \<^verbatim>\<open>\r\n\<close> and every
  other \<^verbatim>\<open>\r\<close> of the file arrives as \<^verbatim>\<open>\n\<close>. The stored characters of a file are the
  text its bytes decode to: files that do not decode are outside the model.
\<close>

fun universal_newlines :: "string \<Rightarrow> string" where
  "universal_newlines [] = []"
| "universal_newlines (c # d # s) =
     (if c = CR \<and> d = NL then NL # universal_newlines s
      else if c = CR then NL # universal_newlines (d # s)
      else c # universal_newlines (d # s))"
| "universal_newlines [c] = (if c = CR then [NL] else [c])"

definition read_text :: "string \<Rightarrow> world \<Rightarrow> py_error + string" where
  "read_text p w =
     (case read_file p w of Inl e \<Rightarrow> Inl e | Inr c \<Rightarrow> Inr (universal_newlines c))"

text \<open>
  \<^verbatim>\<open>open(p, "w")\<close> creates the file or truncates it. What is written is buffered and
  reaches the file when it is closed, at the end of the \<^verbatim>\<open>with\<close> block; on a POSIX
  system the characters are stored as written.
\<close>

definition open_w :: "string \<Rightarrow> world \<Rightarrow> world" where
  "open_w p w = w\<lparr>files := AList.update (resolve w p) [] (files w)\<rparr>"

definition close_w :: "string \<Rightarrow> string \<Rightarrow> world \<Rightarrow> world" where
  "close_w p buf w =
     w\<lparr>files := AList.update (resolve w p) buf (files w),
       trace := trace w @ [Written (resolve w p)]\<rparr>"

definition write_file :: "string \<Rightarrow> string \<Rightarrow> world \<Rightarrow> world" where
  "write_file p c w = close_w p c (open_w p w)"

definition os_remove :: "string \<Rightarrow> world \<Rightarrow> (py_error + unit) \<times> world" where
  "os_remove p w =
     (case lookup_file w p of
        None \<Rightarrow> (Inl (no_file w p), w)
      | Some c \<Rightarrow>
          (Inr (), w\<lparr>files := AList.delete (resolve w p) (files w),
                     trace := trace w @ [Removed (resolve w p)]\<rparr>))"

text \<open>
  \<^verbatim>\<open>os.listdir(directory)\<close>: the names of the files and of the directories directly in
  the directory, each once. \<open>dir_entries\<close> is that list; the call raises for the empty
  path, for a path that is a regular file and for a directory that does not exist.
\<close>

definition dir_entries :: "string \<Rightarrow> world \<Rightarrow> string list" where
  "dir_entries directory w =
     remdups (filter (\<lambda>name. name \<noteq> [])
                (map (takeWhile (\<lambda>c. c \<noteq> SEP)) (below w directory)))"

definition os_listdir :: "string \<Rightarrow> world \<Rightarrow> py_error + string list" where
  "os_listdir directory w =
     (if directory = [] then Inl FileNotFoundError
      else if lookup_file w directory \<noteq> None then Inl NotADirectoryError
      else if \<not> is_dir w directory then Inl FileNotFoundError
      else Inr (dir_entries directory w))"

definition py_print :: "string \<Rightarrow> world \<Rightarrow> world" where
  "py_print s w = w\<lparr>console := console w @ [s]\<rparr>"

text \<open>\<^verbatim>\<open>input(prompt)\<close>: the prompt is written, then one line is read.\<close>

definition py_input :: "string \<Rightarrow> world \<Rightarrow> (py_error + string) \<times> world" where
  "py_input prompt w =
     (let w1 = w\<lparr>console := console w @ [prompt]\<rparr>
      in case stdin w of
           [] \<Rightarrow> (Inl EOFError, w1)
         | line # rest \<Rightarrow> (Inr line, w1\<lparr>stdin := rest\<rparr>))"

section \<open>Audio Fetcher\<close>

text \<open>
  \<^verbatim>\<open>download_video\<close>, lines 37 to 39. The command is run with \<^verbatim>\<open>check=True\<close>: a non-zero
  exit raises. On success the tool has left the audio at \<^verbatim>\<open>directory/video_title.mp3\<close>,
  the path its output template and \<^verbatim>\<open>--audio-format mp3\<close> name.
\<close>

definition download_video ::
  "env \<Rightarrow> pyval \<Rightarrow> string \<Rightarrow> string \<Rightarrow> world \<Rightarrow> (py_error + unit) \<times> world" where
  "download_video E link directory video_title w =
     (case extract_audio E link of
        Inl e \<Rightarrow> (Inl e, w)
      | Inr data \<Rightarrow>
          (Inr (), write_file (os_path_join directory (video_title @ ''.mp3'')) data w))"

section \<open>Playlist Resolver\<close>

text \<open>
  \<open>py_getitem v k\<close> is \<^verbatim>\<open>v[k]\<close> for a string key: a dict gives the value of the key (the
  last one, when the document repeats a key) or \<^verbatim>\<open>KeyError\<close>; every other value raises
  \<^verbatim>\<open>TypeError\<close>. \<open>py_iter v\<close> is what \<^verbatim>\<open>for item in v\<close> runs over.
\<close>

fun py_getitem :: "pyval \<Rightarrow> string \<Rightarrow> py_error + pyval" where
  "py_getitem (PDict kvs) k =
     (case map_of (rev kvs) k of None \<Rightarrow> Inl KeyError | Some v \<Rightarrow> Inr v)"
| "py_getitem v k = Inl TypeError"

fun py_iter :: "pyval \<Rightarrow> py_error + pyval list" where
  "py_iter (PList xs) = Inr xs"
| "py_iter (PDict kvs) = Inr (map PStr (rev (remdups (rev (map fst kvs)))))"
| "py_iter (PStr s) = Inr (map (\<lambda>c. PStr [c]) s)"
| "py_iter v = Inl TypeError"

text \<open>The comprehension \<^verbatim>\<open>[item[k] for item in entries]\<close>, stopping at the first error.\<close>

fun getitems :: "pyval list \<Rightarrow> string \<Rightarrow> py_error + pyval list" where
  "getitems [] k = Inr []"
| "getitems (item # items) k =
     (case py_getitem item k of
        Inl e \<Rightarrow> Inl e
      | Inr v \<Rightarrow> (case getitems items k of Inl e \<Rightarrow> Inl e | Inr vs \<Rightarrow> Inr (v # vs)))"

text \<open>\<^verbatim>\<open>download_playlist\<close>, lines 52 to 59.\<close>

definition download_playlist ::
  "env \<Rightarrow> string \<Rightarrow> py_error + (pyval \<times> pyval list \<times> pyval list)" where
  "download_playlist E playlist_url =
     (let command = ''yt-dlp -J --flat-playlist '' @ playlist_url
      in case check_output E command of Inl e \<Rightarrow> Inl e | Inr output \<Rightarrow>
         (case json_loads E output of Inl e \<Rightarrow> Inl e | Inr data \<Rightarrow>
         (case py_getitem data ''title'' of Inl e \<Rightarrow> Inl e | Inr playlist_title \<Rightarrow>
         (case py_getitem data ''entries'' of Inl e \<Rightarrow> Inl e | Inr entries \<Rightarrow>
         (case py_iter entries of Inl e \<Rightarrow> Inl e | Inr items \<Rightarrow>
         (case getitems items ''title'' of Inl e \<Rightarrow> Inl e | Inr titles \<Rightarrow>
         (case getitems items ''url'' of Inl e \<Rightarrow> Inl e | Inr urls \<Rightarrow>
            Inr (playlist_title, titles, urls))))))))"

section \<open>Transcriber\<close>

text \<open>
  \<^verbatim>\<open>convert_audio_to_text\<close>, lines 74 to 95. \<open>video_title\<close> is \<open>None\<close> for the default
  \<^verbatim>\<open>None\<close>; \<^verbatim>\<open>if video_title:\<close> holds for a string that is not empty.

  The \<^verbatim>\<open>with\<close> statement of line 78 binds the name \<^verbatim>\<open>audio_file\<close> again, to the
  \<^verbatim>\<open>AudioFile\<close> object that \<^verbatim>\<open>recognizer.record\<close> reads from. From there on the name no
  longer holds the path: line 90 passes the object to \<^verbatim>\<open>os.path.splitext\<close>.

  \<^verbatim>\<open>AudioFileClip\<close> reads the audio file and fails when it is not there (the model reports
  that as \<open>FileNotFoundError\<close>) or cannot be decoded; writing the waveform and opening the
  transcript for writing succeed, as every write does in this model of the file system.
\<close>

definition truthy :: "string option \<Rightarrow> bool" where
  "truthy video_title = (case video_title of None \<Rightarrow> False | Some t \<Rightarrow> t \<noteq> [])"

definition output_name :: "string option \<Rightarrow> pyval \<Rightarrow> py_error + string" where
  "output_name video_title audio_file =
     (if truthy video_title then Inr (the video_title @ ''.txt'')
      else (case splitext_val audio_file of
              Inl e \<Rightarrow> Inl e
            | Inr (root, ext) \<Rightarrow> Inr (root @ ''.txt'')))"

definition convert_audio_to_text ::
  "env \<Rightarrow> string \<Rightarrow> string option \<Rightarrow> world \<Rightarrow> (py_error + unit) \<times> world" where
  "convert_audio_to_text E audio_file video_title w =
     (case read_file audio_file w of Inl e \<Rightarrow> (Inl e, w) | Inr data \<Rightarrow>
      (case decode_audio E data of Inl e \<Rightarrow> (Inl e, w) | Inr wav \<Rightarrow>
       (let temp_wav_path = fst (os_path_splitext audio_file) @ ''.wav'';
            w1 = write_file temp_wav_path wav w;
            audio_file = PAudioFile temp_wav_path
        in case read_file temp_wav_path w1 of Inl e \<Rightarrow> (Inl e, w1) | Inr audio \<Rightarrow>
           (case recognize_google E audio of
              Inl e \<Rightarrow>
                (case e of
                   RequestError msg \<Rightarrow>
                     (Inr (), py_print (''Recognition connection failed: '' @ msg) w1)
                 | _ \<Rightarrow> (Inl e, w1))
            | Inr text \<Rightarrow>
                (case output_name video_title audio_file of
                   Inl e \<Rightarrow> (Inl e, w1)
                 | Inr output_file_name \<Rightarrow>
                     os_remove temp_wav_path (write_file output_file_name text w1))))))"

section \<open>Merger\<close>

text \<open>
  \<^verbatim>\<open>merge_text_files\<close>, lines 109 to 120. \<open>write_sections\<close> is the loop of lines 113 to
  117; it returns what was written to the merged file so far, also when opening a source
  fails, as it does for a directory (the \<^verbatim>\<open>with\<close> block then closes the merged file and
  the error goes on).
  \<open>remove_all\<close> is the loop of lines 119 and 120.
\<close>

fun write_sections ::
  "string \<Rightarrow> string list \<Rightarrow> string \<Rightarrow> world \<Rightarrow> (py_error + unit) \<times> string" where
  "write_sections directory [] buf w = (Inr (), buf)"
| "write_sections directory (file_name # rest) buf w =
     (case read_text (os_path_join directory file_name) w of
        Inl e \<Rightarrow> (Inl e, buf)
      | Inr content \<Rightarrow>
          write_sections directory rest
            (buf @ ''// '' @ file_name @ [NL] @ content @ [NL, NL]) w)"

fun remove_all :: "string \<Rightarrow> string list \<Rightarrow> world \<Rightarrow> (py_error + unit) \<times> world" where
  "remove_all directory [] w = (Inr (), w)"
| "remove_all directory (file # rest) w =
     (case os_remove (os_path_join directory file) w of
        (Inl e, w') \<Rightarrow> (Inl e, w')
      | (Inr u, w') \<Rightarrow> remove_all directory rest w')"

definition text_files_of :: "string \<Rightarrow> string list \<Rightarrow> string list" where
  "text_files_of merged_file_name listing =
     filter (\<lambda>file. endswith file ''.txt'' \<and> file \<noteq> merged_file_name @ ''.txt'' \<and>
                    file \<noteq> ''filenames.txt'') listing"

definition merge_text_files :: "string \<Rightarrow> string \<Rightarrow> world \<Rightarrow> (py_error + unit) \<times> world" where
  "merge_text_files directory merged_file_name w =
     (let merged_file = os_path_join directory (merged_file_name @ ''.txt'')
      in case os_listdir directory w of
           Inl e \<Rightarrow> (Inl e, w)
         | Inr listing \<Rightarrow>
             (let text_files = text_files_of merged_file_name listing;
                  w1 = open_w merged_file w;
                  (r, buf) = write_sections directory text_files [] w1;
                  w2 = close_w merged_file buf w1
              in case r of
                   Inl e \<Rightarrow> (Inl e, w2)
                 | Inr u \<Rightarrow> remove_all directory text_files w2))"

section \<open>Orchestrator\<close>

text \<open>
  \<^verbatim>\<open>int(s)\<close> for a string. Whitespace around the number is skipped: of the characters
  below 128 those that C's \<^verbatim>\<open>isspace\<close> accepts (tab, line feed, vertical tab, form feed,
  carriage return, space; the separators \<^verbatim>\<open>0x1C\<close> to \<^verbatim>\<open>0x1F\<close>, which \<^verbatim>\<open>str.strip\<close> removes, are
  not among them), and the Unicode spaces above (\<^verbatim>\<open>0x85\<close> and \<^verbatim>\<open>0xA0\<close> below 256). One sign
  may come first, then decimal digits, where single underscores may stand between
  digits. A number of more than 4300 digits is rejected (the interpreter's default
  \<^verbatim>\<open>int_max_str_digits\<close>). Anything that is not accepted raises \<^verbatim>\<open>ValueError\<close>.
\<close>

definition int_space :: "char \<Rightarrow> bool" where
  "int_space c = (of_char c \<in> {9, 10, 11, 12, 13, 32, 133, 160 :: nat})"

definition isdigit :: "char \<Rightarrow> bool" where
  "isdigit c = (48 \<le> (of_char c :: nat) \<and> (of_char c :: nat) \<le> 57)"

fun digits_ok :: "string \<Rightarrow> bool" where
  "digits_ok [] = False"
| "digits_ok [c] = isdigit c"
| "digits_ok (c # d # s) =
     (isdigit c \<and> (if d = CHR ''_'' then digits_ok s else digits_ok (d # s)))"

definition digits_value :: "string \<Rightarrow> int" where
  "digits_value body =
     foldl (\<lambda>a c. 10 * a + (int (of_char c) - 48)) 0 (filter isdigit body)"

definition int_max_str_digits :: nat where
  "int_max_str_digits = 4300"

definition py_int :: "string \<Rightarrow> py_error + int" where
  "py_int s =
     (let t = rev (dropWhile int_space (rev (dropWhile int_space s)));
          negative = startswith t ''-'';
          body = (if startswith t ''+'' \<or> startswith t ''-'' then tl t else t)
      in if digits_ok body \<and> length (filter isdigit body) \<le> int_max_str_digits
         then Inr ((if negative then - 1 else 1) * digits_value body)
         else Inl ValueError)"

text \<open>Lines 126 to 131, the single-video path.\<close>

definition single_video :: "env \<Rightarrow> world \<Rightarrow> (py_error + unit) \<times> world" where
  "single_video E w =
     (case py_input ''Enter the link you want to download: '' w of
        (Inl e, w1) \<Rightarrow> (Inl e, w1)
      | (Inr link, w1) \<Rightarrow>
          (let video_title = get_video_title E link;
               folder_path = os_path_join (cwd w1) video_title
           in case download_video E (PStr link) folder_path video_title w1 of
                (Inl e, w2) \<Rightarrow> (Inl e, w2)
              | (Inr u, w2) \<Rightarrow>
                  convert_audio_to_text E
                    (os_path_join folder_path (video_title @ ''.mp3'')) (Some video_title) w2))"

text \<open>
  Lines 141 to 143, the manifest: \<^verbatim>\<open>link + "\n"\<close> raises \<^verbatim>\<open>TypeError\<close> for a title that
  is not a string, so after the loop every title is one; the function returns them as
  strings, with what was written.
\<close>

fun manifest_lines :: "pyval list \<Rightarrow> string \<Rightarrow> (py_error + string list) \<times> string" where
  "manifest_lines [] buf = (Inr [], buf)"
| "manifest_lines (PStr t # rest) buf =
     (case manifest_lines rest (buf @ t @ [NL]) of
        (Inl e, buf') \<Rightarrow> (Inl e, buf')
      | (Inr ts, buf') \<Rightarrow> (Inr (t # ts), buf'))"
| "manifest_lines (v # rest) buf = (Inl TypeError, buf)"

text \<open>Lines 145 to 147: every item is downloaded and transcribed, with no title.\<close>

fun process_items ::
  "env \<Rightarrow> string \<Rightarrow> (pyval \<times> string) list \<Rightarrow> world \<Rightarrow> (py_error + unit) \<times> world" where
  "process_items E subfolder_path [] w = (Inr (), w)"
| "process_items E subfolder_path ((playlist_link, playlist_title) # rest) w =
     (case download_video E playlist_link subfolder_path playlist_title w of
        (Inl e, w1) \<Rightarrow> (Inl e, w1)
      | (Inr u, w1) \<Rightarrow>
          (case convert_audio_to_text E
                  (os_path_join subfolder_path (playlist_title @ ''.mp3'')) None w1 of
             (Inl e, w2) \<Rightarrow> (Inl e, w2)
           | (Inr u, w2) \<Rightarrow> process_items E subfolder_path rest w2))"

text \<open>
  Lines 134 to 149, the playlist path. \<^verbatim>\<open>os.path.basename\<close> of line 136 raises
  \<^verbatim>\<open>TypeError\<close> unless the playlist title is a string.
\<close>

definition playlist :: "env \<Rightarrow> world \<Rightarrow> (py_error + unit) \<times> world" where
  "playlist E w =
     (case py_input ''Enter the playlist link you want to download: '' w of
        (Inl e, w1) \<Rightarrow> (Inl e, w1)
      | (Inr link, w1) \<Rightarrow>
          (case download_playlist E link of
             Inl e \<Rightarrow> (Inl e, w1)
           | Inr (playlist_title, titles, urls) \<Rightarrow>
               (case playlist_title of
                  PStr filename \<Rightarrow>
                    (let folder_name = fst (os_path_splitext (os_path_basename filename));
                         subfolder_path = os_path_join (cwd w1) folder_name;
                         file_path = os_path_join subfolder_path filename;
                         (r, buf) = manifest_lines titles [];
                         w2 = write_file file_path buf w1
                     in case r of
                          Inl e \<Rightarrow> (Inl e, w2)
                        | Inr ts \<Rightarrow>
                            (case process_items E subfolder_path (zip urls ts) w2 of
                               (Inl e, w3) \<Rightarrow> (Inl e, w3)
                             | (Inr u, w3) \<Rightarrow> merge_text_files subfolder_path filename w3))
                | _ \<Rightarrow> (Inl TypeError, w1))))"

text \<open>Lines 123 to 151.\<close>

definition menu_prompt :: string where
  "menu_prompt =
     ''Enter'' @ [NL] @ ''1. To convert one video to text'' @ [NL] @
     ''2. To convert a playlist to text''"

definition main :: "env \<Rightarrow> world \<Rightarrow> (py_error + unit) \<times> world" where
  "main E w =
     (case py_input menu_prompt w of
        (Inl e, w1) \<Rightarrow> (Inl e, w1)
      | (Inr line, w1) \<Rightarrow>
          (case py_int line of
             Inl e \<Rightarrow> (Inl e, w1)
           | Inr single_video_download \<Rightarrow>
               if single_video_download = 1 then single_video E w1
               else if single_video_download = 2 then playlist E w1
               else (Inr (), py_print ''Invalid option'' w1)))"

section \<open>Notions used to state the properties\<close>

text \<open>
  What a path holds (nothing for a path that names no file), and the section the Merger
  writes for a source file: a header line with the file's name, the text, an empty line.
\<close>

definition stored :: "world \<Rightarrow> string \<Rightarrow> string" where
  "stored w p = (case lookup_file w p of None \<Rightarrow> [] | Some c \<Rightarrow> c)"

definition section_text :: "string \<Rightarrow> string \<Rightarrow> string" where
  "section_text file_name content = ''// '' @ file_name @ [NL] @ content @ [NL, NL]"

text \<open>
  Concrete inputs. The tool prints the title \<^verbatim>\<open>T\<close> and a newline, its playlist dump parses
  to the example document of the specification, decoding and recognition succeed.
\<close>

definition example_doc :: pyval where
  "example_doc =
     PDict [(''title'', PStr ''MyList''),
            (''entries'', PList [PDict [(''title'', PStr ''A''), (''url'', PStr ''u1'')],
                                 PDict [(''title'', PStr ''B''), (''url'', PStr ''u2'')]])]"

definition example_env :: env where
  "example_env =
     \<lparr>get_title_stdout = (\<lambda>link. ''T'' @ [NL]),
      extract_audio = (\<lambda>link. Inr ''mp3''),
      check_output = (\<lambda>command. Inr ''json''),
      json_loads = (\<lambda>text. Inr example_doc),
      decode_audio = (\<lambda>data. Inr ''wav''),
      recognize_google = (\<lambda>wav. Inr ''hi'')\<rparr>"

definition offline_env :: env where
  "offline_env = example_env\<lparr>recognize_google := (\<lambda>wav. Inl (RequestError ''no route''))\<rparr>"

definition example_world :: "string list \<Rightarrow> (string \<times> string) list \<Rightarrow> world" where
  "example_world input fs =
     \<lparr>cwd = ''/home/u'', files = fs, console = [], stdin = input, trace = []\<rparr>"

section \<open>Auxiliary facts\<close>

subsection \<open>Replacing the reserved characters\<close>

lemma re_sub_class_single_length:
  "length (re_sub_class cls [r] s) = length s"
  by (induction s) simp_all

lemma re_sub_class_single_nth:
  "i < length s \<Longrightarrow>
   re_sub_class cls [r] s ! i = (if s ! i \<in> set cls then r else s ! i)"
proof (induction s arbitrary: i)
  case Nil
  then show ?case by simp
next
  case (Cons c s)
  then show ?case by (cases i) simp_all
qed

lemma re_sub_class_single_set:
  "r \<notin> set cls \<Longrightarrow> set (re_sub_class cls [r] s) \<inter> set cls = {}"
  by (induction s) auto

lemma re_sub_class_no_match:
  "set s \<inter> set cls = {} \<Longrightarrow> re_sub_class cls repl s = s"
  by (induction s) auto

lemma underscore_not_reserved: "CHR ''_'' \<notin> set reserved"
  by (simp add: reserved_def)

subsection \<open>Paths\<close>

lemma startswith_sep: "startswith b ''/'' \<longleftrightarrow> (b \<noteq> [] \<and> hd b = SEP)"
  by (cases b) (simp_all add: startswith_def)

lemma endswith_sep: "endswith a ''/'' \<longleftrightarrow> (a \<noteq> [] \<and> last a = SEP)"
proof (cases a rule: rev_cases)
  case Nil
  then show ?thesis by (simp add: endswith_def)
next
  case (snoc ys y)
  then show ?thesis by (simp add: endswith_def)
qed

lemma os_path_join_alt:
  "os_path_join a b =
     (if b \<noteq> [] \<and> hd b = SEP then b
      else if a = [] \<or> last a = SEP then a @ b else a @ ''/'' @ b)"
  unfolding os_path_join_def startswith_sep endswith_sep by auto

lemma resolve_join_plain:
  assumes "SEP \<notin> set n"
  shows "resolve w (os_path_join directory n) = dir_prefix w directory @ n"
proof -
  have n: "\<not> (n \<noteq> [] \<and> hd n = SEP)" using assms by (cases n) auto
  show ?thesis
    unfolding resolve_def dir_prefix_def
    using n by (cases directory; cases "cwd w" rule: rev_cases) (auto simp: os_path_join_alt)
qed

lemma last_resolve: "p \<noteq> [] \<Longrightarrow> last (resolve w p) = last p"
  by (auto simp: resolve_def os_path_join_alt)

lemma resolve_nonempty: "p \<noteq> [] \<Longrightarrow> resolve w p \<noteq> []"
  by (auto simp: resolve_def os_path_join_alt)

subsection \<open>The world\<close>

lemma resolve_open_w [simp]: "resolve (open_w p w) q = resolve w q"
  by (simp add: resolve_def open_w_def)

lemma resolve_close_w [simp]: "resolve (close_w p b w) q = resolve w q"
  by (simp add: resolve_def close_w_def)

lemma resolve_write_file [simp]: "resolve (write_file p c w) q = resolve w q"
  by (simp add: write_file_def)

lemma resolve_py_print [simp]: "resolve (py_print s w) q = resolve w q"
  by (simp add: resolve_def py_print_def)

lemma lookup_open_w:
  "lookup_file (open_w p w) q = (if resolve w q = resolve w p then Some [] else lookup_file w q)"
  by (simp add: lookup_file_def open_w_def resolve_def update_conv')

lemma lookup_close_w:
  "lookup_file (close_w p b w) q = (if resolve w q = resolve w p then Some b else lookup_file w q)"
  by (simp add: lookup_file_def close_w_def resolve_def update_conv')

lemma lookup_write_file:
  "lookup_file (write_file p c w) q = (if resolve w q = resolve w p then Some c else lookup_file w q)"
  by (simp add: write_file_def lookup_close_w lookup_open_w)

lemma lookup_py_print [simp]: "lookup_file (py_print s w) q = lookup_file w q"
  by (simp add: lookup_file_def) (simp add: py_print_def)

lemma write_file_fields [simp]:
  "cwd (write_file p c w) = cwd w"
  "console (write_file p c w) = console w"
  "stdin (write_file p c w) = stdin w"
  "trace (write_file p c w) = trace w @ [Written (resolve w p)]"
  "files (write_file p c w) = AList.update (resolve w p) c (files w)"
  by (simp_all add: write_file_def close_w_def open_w_def resolve_def)

lemma py_print_fields [simp]:
  "cwd (py_print s w) = cwd w"
  "console (py_print s w) = console w @ [s]"
  "stdin (py_print s w) = stdin w"
  "trace (py_print s w) = trace w"
  "files (py_print s w) = files w"
  by (simp_all add: py_print_def)

lemma os_remove_present:
  assumes "lookup_file w p = Some c"
  shows "\<exists>w'. os_remove p w = (Inr (), w') \<and>
           (\<forall>q. lookup_file w' q =
                  (if resolve w q = resolve w p then None else lookup_file w q)) \<and>
           trace w' = trace w @ [Removed (resolve w p)] \<and>
           files w' = AList.delete (resolve w p) (files w) \<and>
           cwd w' = cwd w \<and> console w' = console w \<and> stdin w' = stdin w"
  using assms by (simp add: os_remove_def lookup_file_def resolve_def delete_conv')

subsection \<open>Transcriber\<close>

lemma wav_txt_distinct:
  "resolve w (a @ ''.wav'') \<noteq> resolve w (b @ ''.txt'')"
proof
  assume "resolve w (a @ ''.wav'') = resolve w (b @ ''.txt'')"
  then have "last (resolve w (a @ ''.wav'')) = last (resolve w (b @ ''.txt''))" by simp
  then show False by (simp add: last_resolve)
qed

lemma convert_request_error:
  assumes "read_file audio_file w = Inr data"
    and "decode_audio E data = Inr wav"
    and "recognize_google E wav = Inl (RequestError msg)"
  shows "convert_audio_to_text E audio_file video_title w =
           (Inr (), py_print (''Recognition connection failed: '' @ msg)
                      (write_file (fst (os_path_splitext audio_file) @ ''.wav'') wav w))"
  using assms
  by (simp add: convert_audio_to_text_def Let_def read_file_def lookup_write_file)

lemma convert_without_title:
  assumes "read_file audio_file w = Inr data"
    and "decode_audio E data = Inr wav"
    and "recognize_google E wav = Inr text"
    and "\<not> truthy video_title"
  shows "convert_audio_to_text E audio_file video_title w =
           (Inl TypeError, write_file (fst (os_path_splitext audio_file) @ ''.wav'') wav w)"
  using assms
  by (simp add: convert_audio_to_text_def Let_def read_file_def lookup_write_file output_name_def)




subsection \<open>What the Transcriber leaves alone\<close>

lemma os_remove_snd:
  "cwd (snd (os_remove p w)) = cwd w \<and> console (snd (os_remove p w)) = console w \<and>
   stdin (snd (os_remove p w)) = stdin w \<and>
   (\<exists>evs. trace (snd (os_remove p w)) = trace w @ evs \<and> set evs \<subseteq> {Removed (resolve w p)}) \<and>
   (resolve w q \<noteq> resolve w p \<longrightarrow> lookup_file (snd (os_remove p w)) q = lookup_file w q)"
  by (cases "lookup_file w p")
     (simp_all add: os_remove_def, simp add: lookup_file_def resolve_def delete_conv')



subsection \<open>Playlist Resolver\<close>

lemma getitems_ok:
  assumes "\<forall>e \<in> set es. \<exists>v. py_getitem e k = Inr v"
  shows "\<exists>vs. getitems es k = Inr vs \<and> length vs = length es \<and>
              (\<forall>i < length es. py_getitem (es ! i) k = Inr (vs ! i))"
  using assms
proof (induction es)
  case Nil
  then show ?case by simp
next
  case (Cons e es)
  then obtain v where v: "py_getitem e k = Inr v" by auto
  from Cons obtain vs where vs: "getitems es k = Inr vs" "length vs = length es"
    "\<forall>i < length es. py_getitem (es ! i) k = Inr (vs ! i)" by auto
  have "\<forall>i < length (e # es). py_getitem ((e # es) ! i) k = Inr ((v # vs) ! i)"
    using v vs(3) by (auto simp: nth_Cons split: nat.splits)
  then show ?case using v vs by simp
qed


subsection \<open>Merger\<close>

lemma dir_entries_plain:
  assumes "f \<in> set (dir_entries d w)"
  shows "SEP \<notin> set f \<and> f \<noteq> []"
  using assms by (auto simp: dir_entries_def dest: set_takeWhileD)

lemma dir_entries_distinct: "distinct (dir_entries d w)"
  by (simp add: dir_entries_def)

lemma below_file:
  assumes "SEP \<notin> set n" and "n \<noteq> []" and "lookup_file w (os_path_join d n) \<noteq> None"
  shows "n \<in> set (below w d)"
proof -
  let ?P = "dir_prefix w d"
  let ?keep = "\<lambda>p. startswith p ?P \<and> length ?P < length p"
  have "resolve w (os_path_join d n) = ?P @ n"
    using assms(1) by (rule resolve_join_plain)
  then have "map_of (files w) (?P @ n) \<noteq> None"
    using assms(3) by (simp add: lookup_file_def)
  then have "?P @ n \<in> fst ` set (files w)"
    by (simp add: map_of_eq_None_iff)
  then have "?P @ n \<in> set (filter ?keep (map fst (files w)))"
    using assms(2) by (simp add: startswith_def)
  then have "drop (length ?P) (?P @ n) \<in> drop (length ?P) ` set (filter ?keep (map fst (files w)))"
    by (rule imageI)
  then have "drop (length ?P) (?P @ n) \<in> set (below w d)"
    by (simp only: below_def Let_def set_map)
  then show ?thesis by simp
qed

lemma dir_entries_file:
  assumes "SEP \<notin> set n" and "n \<noteq> []" and "lookup_file w (os_path_join d n) \<noteq> None"
  shows "n \<in> set (dir_entries d w)"
proof -
  have "n \<in> set (below w d)" using assms by (rule below_file)
  moreover have "takeWhile (\<lambda>c. c \<noteq> SEP) n = n"
    using assms(1) by (simp add: takeWhile_eq_all_conv) metis
  ultimately have "n \<in> takeWhile (\<lambda>c. c \<noteq> SEP) ` set (below w d)"
    by (metis imageI)
  then show ?thesis
    using assms(2) by (simp add: dir_entries_def)
qed

lemma os_listdir_entries:
  "os_listdir d w = Inr listing \<Longrightarrow> listing = dir_entries d w"
  by (auto simp: os_listdir_def split: if_splits)

lemma write_sections_ok:
  assumes "\<forall>f \<in> set T. lookup_file w (os_path_join d f) \<noteq> None"
  shows "write_sections d T buf w =
           (Inr (), buf @ concat (map (\<lambda>f. section_text f
                                     (universal_newlines (stored w (os_path_join d f)))) T))"
  using assms
proof (induction T arbitrary: buf)
  case Nil
  then show ?case by simp
next
  case (Cons f T)
  then obtain c where c: "lookup_file w (os_path_join d f) = Some c" by auto
  then have rd: "read_text (os_path_join d f) w = Inr (universal_newlines c)"
    by (simp add: read_text_def read_file_def)
  have st: "stored w (os_path_join d f) = c"
    using c by (simp add: stored_def)
  show ?case
    using Cons rd st by (simp add: section_text_def)
qed

lemma remove_all_ok:
  assumes "distinct T"
    and "\<forall>f \<in> set T. os_path_join (cwd w) (os_path_join d f) = P @ f"
    and "\<forall>f \<in> set T. lookup_file w (os_path_join d f) \<noteq> None"
  shows "\<exists>w'. remove_all d T w = (Inr (), w') \<and> cwd w' = cwd w \<and>
           console w' = console w \<and> stdin w' = stdin w \<and>
           trace w' = trace w @ map (\<lambda>f. Removed (P @ f)) T \<and>
           (\<forall>q. lookup_file w' q =
                  (if resolve w q \<in> (\<lambda>f. P @ f) ` set T then None else lookup_file w q))"
  using assms
proof (induction T arbitrary: w)
  case Nil
  then show ?case by simp
next
  case (Cons f T)
  from Cons.prems obtain c where c: "lookup_file w (os_path_join d f) = Some c" by auto
  have rf: "resolve w (os_path_join d f) = P @ f"
    using Cons.prems by (simp add: resolve_def)
  from os_remove_present [OF c] obtain w1 where
    rm: "os_remove (os_path_join d f) w = (Inr (), w1)" and
    look: "\<forall>q. lookup_file w1 q =
             (if resolve w q = resolve w (os_path_join d f) then None else lookup_file w q)" and
    tr: "trace w1 = trace w @ [Removed (resolve w (os_path_join d f))]" and
    same: "cwd w1 = cwd w" "console w1 = console w" "stdin w1 = stdin w"
    by blast
  have res: "resolve w1 q = resolve w q" for q
    using same by (simp add: resolve_def)
  have others: "\<forall>g \<in> set T. lookup_file w1 (os_path_join d g) \<noteq> None"
  proof
    fix g assume g: "g \<in> set T"
    then have "g \<noteq> f" using Cons.prems(1) by auto
    moreover have "resolve w (os_path_join d g) = P @ g"
      using g Cons.prems(2) by (simp add: resolve_def)
    ultimately have "resolve w (os_path_join d g) \<noteq> resolve w (os_path_join d f)"
      using rf by simp
    then show "lookup_file w1 (os_path_join d g) \<noteq> None"
      using look g Cons.prems(3) by simp
  qed
  have "distinct T" using Cons.prems(1) by simp
  moreover have "\<forall>g \<in> set T. os_path_join (cwd w1) (os_path_join d g) = P @ g"
    using Cons.prems(2) same by simp
  ultimately obtain w' where
    w': "remove_all d T w1 = (Inr (), w')" "cwd w' = cwd w1" "console w' = console w1"
        "stdin w' = stdin w1" "trace w' = trace w1 @ map (\<lambda>f. Removed (P @ f)) T"
        "\<forall>q. lookup_file w' q =
               (if resolve w1 q \<in> (\<lambda>f. P @ f) ` set T then None else lookup_file w1 q)"
    using Cons.IH [of w1] others by blast
  have "\<forall>q. lookup_file w' q =
          (if resolve w q \<in> (\<lambda>f. P @ f) ` set (f # T) then None else lookup_file w q)"
    using w'(6) look rf res by auto
  then show ?case
    using rm w' tr same rf by simp
qed

lemma write_sections_success:
  assumes "write_sections d T buf w = (Inr (), b)"
  shows "\<forall>f \<in> set T. lookup_file w (os_path_join d f) \<noteq> None"
  using assms
proof (induction T arbitrary: buf)
  case Nil
  then show ?case by simp
next
  case (Cons f T)
  show ?case
  proof (cases "lookup_file w (os_path_join d f)")
    case None
    then show ?thesis
      using Cons.prems by (simp add: read_text_def read_file_def)
  next
    case (Some c)
    then have "write_sections d T (buf @ ''// '' @ f @ [NL] @ universal_newlines c @ [NL, NL]) w
                 = (Inr (), b)"
      using Cons.prems by (simp add: read_text_def read_file_def)
    from Cons.IH [OF this] Some show ?thesis by simp
  qed
qed


lemma merge_text_files_core:
  assumes plain: "SEP \<notin> set merged_file_name"
    and ls: "os_listdir directory w = Inr listing"
    and present: "\<forall>f \<in> set (text_files_of merged_file_name (dir_entries directory w)).
                    lookup_file w (os_path_join directory f) \<noteq> None"
  shows "\<exists>w'. merge_text_files directory merged_file_name w = (Inr (), w') \<and>
     lookup_file w' (os_path_join directory (merged_file_name @ ''.txt'')) =
       Some (concat (map (\<lambda>f. section_text f
                            (universal_newlines (stored w (os_path_join directory f))))
               (text_files_of merged_file_name (dir_entries directory w)))) \<and>
     (\<forall>f \<in> set (text_files_of merged_file_name (dir_entries directory w)).
        lookup_file w (os_path_join directory f) \<noteq> None \<and>
        lookup_file w' (os_path_join directory f) = None) \<and>
     (\<forall>q. resolve w q \<noteq> resolve w (os_path_join directory (merged_file_name @ ''.txt'')) \<and>
          resolve w q \<notin> (\<lambda>f. resolve w (os_path_join directory f)) `
             set (text_files_of merged_file_name (dir_entries directory w)) \<longrightarrow>
          lookup_file w' q = lookup_file w q) \<and>
     trace w' = trace w @
       Written (resolve w (os_path_join directory (merged_file_name @ ''.txt''))) #
       map (\<lambda>f. Removed (resolve w (os_path_join directory f)))
         (text_files_of merged_file_name (dir_entries directory w)) \<and>
     console w' = console w \<and> cwd w' = cwd w \<and> stdin w' = stdin w"
proof -
  let ?T = "text_files_of merged_file_name (dir_entries directory w)"
  let ?P = "dir_prefix w directory"
  let ?m = "merged_file_name @ ''.txt''"
  let ?M = "os_path_join directory ?m"
  let ?w1 = "open_w ?M w"
  let ?sec = "\<lambda>v f. section_text f (universal_newlines (stored v (os_path_join directory f)))"
  let ?buf = "concat (map (?sec w) ?T)"
  let ?w2 = "close_w ?M ?buf ?w1"
  have listing: "listing = dir_entries directory w"
    using ls by (rule os_listdir_entries)
  have T_sub: "set ?T \<subseteq> set (dir_entries directory w)"
    by (auto simp: text_files_of_def)
  have T_dist: "distinct ?T"
    using dir_entries_distinct [of directory w] by (simp add: text_files_of_def)
  have T_not_m: "f \<noteq> ?m" if "f \<in> set ?T" for f
    using that by (auto simp: text_files_of_def)
  have T_path: "resolve w (os_path_join directory f) = ?P @ f" if "f \<in> set ?T" for f
    using that T_sub dir_entries_plain [of f directory w] by (auto intro: resolve_join_plain)
  have M_path: "resolve w ?M = ?P @ ?m"
    using plain by (intro resolve_join_plain) simp
  have T_neq_M: "resolve w (os_path_join directory f) \<noteq> resolve w ?M" if "f \<in> set ?T" for f
    using T_path [OF that] M_path T_not_m [OF that] by simp
  have T_present: "lookup_file w (os_path_join directory f) \<noteq> None" if "f \<in> set ?T" for f
    using that present by blast
  have w1_look: "lookup_file ?w1 (os_path_join directory f) = lookup_file w (os_path_join directory f)"
    if "f \<in> set ?T" for f
    using T_neq_M [OF that] by (simp add: lookup_open_w)
  have sec_eq: "map (?sec ?w1) ?T = map (?sec w) ?T"
    using w1_look by (simp add: stored_def)
  have "write_sections directory ?T [] ?w1 = (Inr (), [] @ concat (map (?sec ?w1) ?T))"
    using w1_look T_present by (intro write_sections_ok) simp
  then have ws: "write_sections directory ?T [] ?w1 = (Inr (), ?buf)"
    using sec_eq by simp
  have merge_eq: "merge_text_files directory merged_file_name w = remove_all directory ?T ?w2"
    using ws ls listing by (simp add: merge_text_files_def Let_def)
  have w2_fields: "cwd ?w2 = cwd w" "console ?w2 = console w" "stdin ?w2 = stdin w"
    "trace ?w2 = trace w @ [Written (resolve w ?M)]"
    by (simp_all add: close_w_def open_w_def resolve_def)
  have w2_look: "lookup_file ?w2 q = (if resolve w q = resolve w ?M then Some ?buf else lookup_file w q)"
    for q
    by (simp add: lookup_close_w lookup_open_w)
  have w2_present: "\<forall>f \<in> set ?T. lookup_file ?w2 (os_path_join directory f) \<noteq> None"
    using T_present T_neq_M by (simp add: w2_look)
  have w2_path: "\<forall>f \<in> set ?T. os_path_join (cwd ?w2) (os_path_join directory f) = ?P @ f"
    using T_path by (simp add: w2_fields resolve_def)
  from remove_all_ok [OF T_dist w2_path w2_present] obtain w' where
    w': "remove_all directory ?T ?w2 = (Inr (), w')" "cwd w' = cwd ?w2" "console w' = console ?w2"
        "stdin w' = stdin ?w2" "trace w' = trace ?w2 @ map (\<lambda>f. Removed (?P @ f)) ?T"
        "\<forall>q. lookup_file w' q =
               (if resolve ?w2 q \<in> (\<lambda>f. ?P @ f) ` set ?T then None else lookup_file ?w2 q)"
    by blast
  have img: "(\<lambda>f. resolve w (os_path_join directory f)) ` set ?T = (\<lambda>f. ?P @ f) ` set ?T"
    using T_path by (auto simp: image_iff)
  have M_notin: "resolve w ?M \<notin> (\<lambda>f. ?P @ f) ` set ?T"
    using M_path T_not_m by auto
  have c1: "lookup_file w' ?M = Some ?buf"
    using w'(6) M_notin by (simp add: w2_look)
  have c2: "\<forall>f \<in> set ?T. lookup_file w (os_path_join directory f) \<noteq> None \<and>
                          lookup_file w' (os_path_join directory f) = None"
    using w'(6) T_present T_path by simp
  have c3: "\<forall>q. resolve w q \<noteq> resolve w ?M \<and>
               resolve w q \<notin> (\<lambda>f. resolve w (os_path_join directory f)) ` set ?T \<longrightarrow>
               lookup_file w' q = lookup_file w q"
    using w'(6) img by (simp add: w2_look)
  have c4: "trace w' = trace w @ Written (resolve w ?M) #
              map (\<lambda>f. Removed (resolve w (os_path_join directory f))) ?T"
    using w'(5) w2_fields(4) T_path by simp
  have r: "merge_text_files directory merged_file_name w = (Inr (), w')"
    using merge_eq w'(1) by simp
  have c5: "console w' = console w" using w'(3) w2_fields(2) by simp
  have c6: "cwd w' = cwd w" using w'(2) w2_fields(1) by simp
  have c7: "stdin w' = stdin w" using w'(4) w2_fields(3) by simp
  show ?thesis
    by (rule exI [of _ w']) (intro conjI r c1 c2 c3 c4 c5 c6 c7)
qed

text \<open>What a normal return tells: the listing succeeded and every source was a file.\<close>

lemma merge_text_files_returned:
  assumes plain: "SEP \<notin> set merged_file_name"
    and ret: "merge_text_files directory merged_file_name w = (Inr (), w')"
  shows "os_listdir directory w = Inr (dir_entries directory w) \<and>
         (\<forall>f \<in> set (text_files_of merged_file_name (dir_entries directory w)).
            lookup_file w (os_path_join directory f) \<noteq> None)"
proof -
  let ?T = "text_files_of merged_file_name (dir_entries directory w)"
  let ?M = "os_path_join directory (merged_file_name @ ''.txt'')"
  let ?w1 = "open_w ?M w"
  obtain listing where ls: "os_listdir directory w = Inr listing"
    using ret by (cases "os_listdir directory w") (simp_all add: merge_text_files_def)
  then have listing: "listing = dir_entries directory w" by (rule os_listdir_entries)
  obtain r buf where ws: "write_sections directory ?T [] ?w1 = (r, buf)"
    by (cases "write_sections directory ?T [] ?w1")
  have "r = Inr ()"
    using ret ls listing ws by (cases r) (simp_all add: merge_text_files_def Let_def)
  with ws have ok: "write_sections directory ?T [] ?w1 = (Inr (), buf)" by simp
  have "lookup_file w (os_path_join directory f) \<noteq> None" if f: "f \<in> set ?T" for f
  proof -
    have "f \<in> set (dir_entries directory w)" and "f \<noteq> merged_file_name @ ''.txt''"
      using f by (auto simp: text_files_of_def)
    then have "resolve w (os_path_join directory f) = dir_prefix w directory @ f"
      using dir_entries_plain [of f directory w] by (auto intro: resolve_join_plain)
    moreover have "resolve w ?M = dir_prefix w directory @ (merged_file_name @ ''.txt'')"
      using plain by (intro resolve_join_plain) simp
    ultimately have "resolve w (os_path_join directory f) \<noteq> resolve w ?M"
      using \<open>f \<noteq> merged_file_name @ ''.txt''\<close> by simp
    then have "lookup_file ?w1 (os_path_join directory f) = lookup_file w (os_path_join directory f)"
      by (simp add: lookup_open_w)
    moreover have "lookup_file ?w1 (os_path_join directory f) \<noteq> None"
      using write_sections_success [OF ok] f by blast
    ultimately show ?thesis by simp
  qed
  then show ?thesis using ls listing by simp
qed





lemma txt_unchanged_by_wav:
  "lookup_file (write_file (a @ ''.wav'') c w) (b @ ''.txt'') = lookup_file w (b @ ''.txt'')"
  using wav_txt_distinct [of w a b] by (simp add: lookup_write_file)

subsection \<open>The single-video run\<close>



subsection \<open>The console\<close>

lemma os_remove_console: "console (snd (os_remove p w)) = console w"
  using os_remove_snd [of p w p] by blast

lemma remove_all_console: "console (snd (remove_all d T w)) = console w"
proof (induction T arbitrary: w)
  case Nil
  then show ?case by simp
next
  case (Cons f T)
  obtain r w1 where r: "os_remove (os_path_join d f) w = (r, w1)"
    by (cases "os_remove (os_path_join d f) w")
  then have "console w1 = console w"
    using os_remove_console [of "os_path_join d f" w] by simp
  then show ?case
    using r Cons.IH [of w1] by (cases r) simp_all
qed

lemma merge_console: "console (snd (merge_text_files d n w)) = console w"
proof (cases "os_listdir d w")
  case (Inl e)
  then show ?thesis by (simp add: merge_text_files_def)
next
  case (Inr listing)
  let ?M = "os_path_join d (n @ ''.txt'')"
  let ?T = "text_files_of n listing"
  obtain r buf where ws: "write_sections d ?T [] (open_w ?M w) = (r, buf)"
    by (cases "write_sections d ?T [] (open_w ?M w)")
  have c: "console (close_w ?M buf (open_w ?M w)) = console w"
    by (simp add: close_w_def open_w_def)
  show ?thesis
    using Inr ws c by (cases r) (simp_all add: merge_text_files_def Let_def remove_all_console)
qed

lemma download_video_console: "console (snd (download_video E l d t w)) = console w"
  by (cases "extract_audio E l") (simp_all add: download_video_def)

lemma convert_console:
  assumes "''Invalid option'' \<in> set (console (snd (convert_audio_to_text E a vt w)))"
  shows "''Invalid option'' \<in> set (console w)"
proof (cases "read_file a w")
  case (Inl e)
  then show ?thesis using assms by (simp add: convert_audio_to_text_def)
next
  case data: (Inr data)
  show ?thesis
  proof (cases "decode_audio E data")
    case (Inl e)
    then show ?thesis using assms data by (simp add: convert_audio_to_text_def)
  next
    case wav: (Inr wav)
    let ?wavp = "fst (os_path_splitext a) @ ''.wav''"
    let ?w1 = "write_file ?wavp wav w"
    have rd: "read_file ?wavp ?w1 = Inr wav"
      by (simp add: read_file_def lookup_write_file)
    show ?thesis
    proof (cases "recognize_google E wav")
      case (Inl e)
      then show ?thesis
        using assms data wav rd
        by (cases e) (simp_all add: convert_audio_to_text_def Let_def)
    next
      case rec_ok: (Inr tx)
      show ?thesis
      proof (cases "output_name vt (PAudioFile ?wavp)")
        case (Inl e)
        then show ?thesis
          using assms data wav rd rec_ok by (simp add: convert_audio_to_text_def Let_def)
      next
        case (Inr out)
        then have "convert_audio_to_text E a vt w = os_remove ?wavp (write_file out tx ?w1)"
          using data wav rd rec_ok by (simp add: convert_audio_to_text_def Let_def)
        then show ?thesis
          using assms by (simp add: os_remove_console)
      qed
    qed
  qed
qed

lemma process_items_console:
  assumes "''Invalid option'' \<in> set (console (snd (process_items E d items w)))"
  shows "''Invalid option'' \<in> set (console w)"
  using assms
proof (induction items arbitrary: w)
  case Nil
  then show ?case by simp
next
  case (Cons item items)
  obtain l t where item: "item = (l, t)" by (cases item)
  obtain r1 w1 where d1: "download_video E l d t w = (r1, w1)"
    by (cases "download_video E l d t w")
  then have c1: "console w1 = console w"
    using download_video_console [of E l d t w] by simp
  show ?case
  proof (cases r1)
    case (Inl e)
    then show ?thesis using Cons.prems item d1 c1 by simp
  next
    case (Inr u)
    obtain r2 w2 where d2:
      "convert_audio_to_text E (os_path_join d (t @ ''.mp3'')) None w1 = (r2, w2)"
      by (cases "convert_audio_to_text E (os_path_join d (t @ ''.mp3'')) None w1")
    have c2: "''Invalid option'' \<in> set (console w2) \<Longrightarrow> ''Invalid option'' \<in> set (console w)"
      using convert_console [of E "os_path_join d (t @ ''.mp3'')" None w1] d2 c1 by simp
    show ?thesis
    proof (cases r2)
      case (Inl e)
      then show ?thesis using Cons.prems item d1 Inr d2 c2 by simp
    next
      case r2: (Inr u2)
      then have "process_items E d (item # items) w = process_items E d items w2"
        using item d1 Inr d2 by simp
      then show ?thesis using Cons.prems Cons.IH [of w2] c2 by simp
    qed
  qed
qed

lemma single_video_console:
  assumes "''Invalid option'' \<in> set (console (snd (single_video E w)))"
  shows "''Invalid option'' \<in> set (console w)"
proof (cases "stdin w")
  case Nil
  then show ?thesis using assms by (simp add: single_video_def py_input_def)
next
  case (Cons link rest)
  let ?w1 = "w\<lparr>console := console w @ [''Enter the link you want to download: ''], stdin := rest\<rparr>"
  let ?t = "get_video_title E link"
  let ?folder = "os_path_join (cwd w) ?t"
  obtain r2 w2 where d: "download_video E (PStr link) ?folder ?t ?w1 = (r2, w2)"
    by (cases "download_video E (PStr link) ?folder ?t ?w1")
  then have c2: "console w2 = console ?w1"
    using download_video_console [of E "PStr link" ?folder ?t ?w1] by simp
  show ?thesis
  proof (cases r2)
    case (Inl e)
    then show ?thesis
      using assms Cons d c2 by (simp add: single_video_def py_input_def Let_def)
  next
    case (Inr u)
    then have "single_video E w =
        convert_audio_to_text E (os_path_join ?folder (?t @ ''.mp3'')) (Some ?t) w2"
      using Cons d by (simp add: single_video_def py_input_def Let_def)
    then have "''Invalid option'' \<in> set (console w2)"
      using assms convert_console by simp
    then show ?thesis using c2 by simp
  qed
qed

lemma playlist_console:
  assumes "''Invalid option'' \<in> set (console (snd (playlist E w)))"
  shows "''Invalid option'' \<in> set (console w)"
proof (cases "stdin w")
  case Nil
  then show ?thesis using assms by (simp add: playlist_def py_input_def)
next
  case (Cons link rest)
  let ?w1 = "w\<lparr>console := console w @ [''Enter the playlist link you want to download: ''],
                 stdin := rest\<rparr>"
  have w1: "''Invalid option'' \<in> set (console ?w1) \<Longrightarrow> ''Invalid option'' \<in> set (console w)"
    by simp
  show ?thesis
  proof (cases "download_playlist E link")
    case (Inl e)
    then show ?thesis using assms Cons by (simp add: playlist_def py_input_def)
  next
    case (Inr res)
    obtain pt titles urls where res: "res = (pt, titles, urls)" by (cases res)
    show ?thesis
    proof (cases "\<exists>filename. pt = PStr filename")
      case False
      then have "playlist E w = (Inl TypeError, ?w1)"
        using Cons Inr res by (cases pt) (simp_all add: playlist_def py_input_def)
      then show ?thesis using assms by simp
    next
      case True
      then obtain filename where pt: "pt = PStr filename" ..
      let ?sub = "os_path_join (cwd w) (fst (os_path_splitext (os_path_basename filename)))"
      obtain r buf where ml: "manifest_lines titles [] = (r, buf)"
        by (cases "manifest_lines titles []")
      let ?w2 = "write_file (os_path_join ?sub filename) buf ?w1"
      have c2: "console ?w2 = console ?w1" by simp
      show ?thesis
      proof (cases r)
        case (Inl e)
        then have "playlist E w = (Inl e, ?w2)"
          using Cons Inr res pt ml by (simp add: playlist_def py_input_def Let_def)
        then show ?thesis using assms by simp
      next
        case ts: (Inr ts)
        obtain r3 w3 where pi: "process_items E ?sub (zip urls ts) ?w2 = (r3, w3)"
          by (cases "process_items E ?sub (zip urls ts) ?w2")
        have c3: "''Invalid option'' \<in> set (console w3) \<Longrightarrow> ''Invalid option'' \<in> set (console w)"
          using process_items_console [of E ?sub "zip urls ts" ?w2] pi by simp
        show ?thesis
        proof (cases r3)
          case (Inl e)
          then have "playlist E w = (Inl e, w3)"
            using Cons Inr res pt ml ts pi by (simp add: playlist_def py_input_def Let_def)
          then show ?thesis using assms c3 by simp
        next
          case (Inr u)
          then have "playlist E w = merge_text_files ?sub filename w3"
            using Cons \<open>download_playlist E link = Inr res\<close> res pt ml ts pi
            by (simp add: playlist_def py_input_def Let_def)
          then show ?thesis using assms c3 by (simp add: merge_console)
        qed
      qed
    qed
  qed
qed

lemma main_value_error:
  assumes "stdin w = line # rest" and "py_int line = Inl ValueError"
  shows "main E w = (Inl ValueError, w\<lparr>console := console w @ [menu_prompt], stdin := rest\<rparr>)"
  using assms by (simp add: main_def py_input_def)

lemma main_invalid_option:
  assumes "stdin w = line # rest" and "py_int line = Inr n" and "n \<noteq> 1" and "n \<noteq> 2"
  shows "main E w = (Inr (), py_print ''Invalid option''
                              (w\<lparr>console := console w @ [menu_prompt], stdin := rest\<rparr>))"
  using assms by (simp add: main_def py_input_def)

lemma menu_prompt_neq: "menu_prompt \<noteq> ''Invalid option''"
  by (simp add: menu_prompt_def)

lemma main_invalid_only:
  assumes before: "''Invalid option'' \<notin> set (console w)"
    and after: "''Invalid option'' \<in> set (console (snd (main E w)))"
  shows "\<exists>line rest n. stdin w = line # rest \<and> py_int line = Inr n \<and> n \<noteq> 1 \<and> n \<noteq> 2"
proof (cases "stdin w")
  case Nil
  then show ?thesis using before after menu_prompt_neq by (simp add: main_def py_input_def)
next
  case (Cons line rest)
  let ?w1 = "w\<lparr>console := console w @ [menu_prompt], stdin := rest\<rparr>"
  have w1: "''Invalid option'' \<notin> set (console ?w1)"
    using before menu_prompt_neq by simp
  show ?thesis
  proof (cases "py_int line")
    case (Inl e)
    then show ?thesis using Cons after w1 by (simp add: main_def py_input_def)
  next
    case (Inr n)
    have "n \<noteq> 1"
    proof
      assume "n = 1"
      then have "main E w = single_video E ?w1"
        using Cons Inr by (simp add: main_def py_input_def)
      then show False using after w1 single_video_console [of E ?w1] by simp
    qed
    moreover have "n \<noteq> 2"
    proof
      assume "n = 2"
      then have "main E w = playlist E ?w1"
        using Cons Inr by (simp add: main_def py_input_def)
      then show False using after w1 playlist_console [of E ?w1] by simp
    qed
    ultimately show ?thesis using Cons Inr by simp
  qed
qed

subsection \<open>What \<open>int\<close> accepts\<close>

lemma py_int_examples:
  "py_int [CHR 0xA0, CHR ''7'', CHR 0x85] = Inr 7 \<and> py_int ''1_0'' = Inr 10 \<and>
   py_int '' -12 '' = Inr (- 12) \<and> py_int ''+ 1'' = Inl ValueError \<and>
   py_int ''1__0'' = Inl ValueError \<and> py_int [CHR ''1'', CHR 0x1C] = Inl ValueError \<and>
   py_int ''1.0'' = Inl ValueError"
  by code_simp

lemma py_int_digit_limit:
  assumes digits: "\<forall>c \<in> set s. isdigit c" and long: "int_max_str_digits < length s"
  shows "py_int s = Inl ValueError"
proof -
  have s: "s \<noteq> []" using long by auto
  have nd: "\<not> int_space c \<and> c \<noteq> CHR ''+'' \<and> c \<noteq> CHR ''-''" if "isdigit c" for c
    using that by (auto simp: isdigit_def int_space_def)
  have "hd s \<in> set s" and "last s \<in> set s" using s by simp_all
  then have h: "\<not> int_space (hd s)" and l: "\<not> int_space (hd (rev s))"
    and sg: "hd s \<noteq> CHR ''+''" "hd s \<noteq> CHR ''-''"
    using digits nd s by (auto simp: hd_rev)
  have a: "dropWhile int_space s = s"
    using h by (simp add: dropWhile_eq_self_iff)
  have b: "dropWhile int_space (rev s) = rev s"
    using l by (simp add: dropWhile_eq_self_iff)
  have t: "rev (dropWhile int_space (rev (dropWhile int_space s))) = s"
    by (simp add: a b)
  have st: "\<not> startswith s ''+''" "\<not> startswith s ''-''"
    using s sg by (cases s; simp add: startswith_def)+
  have f: "filter isdigit s = s" using digits by simp
  show ?thesis
    using long by (simp add: py_int_def Let_def t st f)
qed

section \<open>The claims\<close>




text \<open>
  C2. When the tool's output parses to a document whose \<^verbatim>\<open>title\<close> is a string and whose
  \<^verbatim>\<open>entries\<close> is a list of objects with string fields \<^verbatim>\<open>title\<close> and \<^verbatim>\<open>url\<close>,
  \<open>download_playlist\<close> returns the top-level title and two lists as long as \<^verbatim>\<open>entries\<close>,
  whose \<open>i\<close>-th elements are the title and the url of the \<open>i\<close>-th entry.
\<close>

theorem download_playlist_aligned:
  assumes "check_output E (''yt-dlp -J --flat-playlist '' @ playlist_url) = Inr output"
    and "json_loads E output = Inr data"
    and "py_getitem data ''title'' = Inr (PStr t)"
    and "py_getitem data ''entries'' = Inr (PList es)"
    and "\<forall>e \<in> set es. \<exists>a b. py_getitem e ''title'' = Inr (PStr a) \<and>
                           py_getitem e ''url'' = Inr (PStr b)"
  shows "\<exists>titles urls.
           download_playlist E playlist_url = Inr (PStr t, titles, urls) \<and>
           length titles = length es \<and> length urls = length es \<and>
           (\<forall>i < length es. py_getitem (es ! i) ''title'' = Inr (titles ! i) \<and>
                             py_getitem (es ! i) ''url'' = Inr (urls ! i))"
proof -
  have "\<forall>e \<in> set es. \<exists>v. py_getitem e ''title'' = Inr v" using assms(5) by blast
  from getitems_ok [OF this] obtain titles where
    ts: "getitems es ''title'' = Inr titles" "length titles = length es"
        "\<forall>i < length es. py_getitem (es ! i) ''title'' = Inr (titles ! i)" by blast
  have "\<forall>e \<in> set es. \<exists>v. py_getitem e ''url'' = Inr v" using assms(5) by blast
  from getitems_ok [OF this] obtain urls where
    us: "getitems es ''url'' = Inr urls" "length urls = length es"
        "\<forall>i < length es. py_getitem (es ! i) ''url'' = Inr (urls ! i)" by blast
  have "download_playlist E playlist_url = Inr (PStr t, titles, urls)"
    using assms(1-4) ts(1) us(1) by (simp add: download_playlist_def)
  then show ?thesis using ts us by blast
qed

text \<open>The example document of the specification.\<close>

theorem download_playlist_aligned_witness:
  "download_playlist example_env ''L'' =
     Inr (PStr ''MyList'', [PStr ''A'', PStr ''B''], [PStr ''u1'', PStr ''u2''])"
proof -
  let ?es = "[PDict [(''title'', PStr ''A''), (''url'', PStr ''u1'')],
              PDict [(''title'', PStr ''B''), (''url'', PStr ''u2'')]]"
  have h1: "check_output example_env (''yt-dlp -J --flat-playlist '' @ ''L'') = Inr ''json''"
    by (simp add: example_env_def)
  have h2: "json_loads example_env ''json'' = Inr example_doc"
    by (simp add: example_env_def)
  have h3: "py_getitem example_doc ''title'' = Inr (PStr ''MyList'')"
    by (simp add: example_doc_def)
  have h4: "py_getitem example_doc ''entries'' = Inr (PList ?es)"
    by (simp add: example_doc_def)
  have h5: "\<forall>e \<in> set ?es. \<exists>a b. py_getitem e ''title'' = Inr (PStr a) \<and>
                                 py_getitem e ''url'' = Inr (PStr b)"
    by simp
  from download_playlist_aligned [OF h1 h2 h3 h4 h5] obtain titles urls where
    r: "download_playlist example_env ''L'' = Inr (PStr ''MyList'', titles, urls)"
    and l: "length titles = 2" "length urls = 2"
    and n: "\<forall>i < length ?es. py_getitem (?es ! i) ''title'' = Inr (titles ! i) \<and>
                              py_getitem (?es ! i) ''url'' = Inr (urls ! i)"
    by auto
  have e: "titles ! 0 = PStr ''A''" "titles ! 1 = PStr ''B''"
    "urls ! 0 = PStr ''u1''" "urls ! 1 = PStr ''u2''"
    using n [rule_format, of 0] n [rule_format, of 1] by simp_all
  have "titles = [PStr ''A'', PStr ''B'']"
    using l(1) e(1,2) by (intro nth_equalityI) (auto simp: less_Suc_eq numeral_2_eq_2)
  moreover have "urls = [PStr ''u1'', PStr ''u2'']"
    using l(2) e(3,4) by (intro nth_equalityI) (auto simp: less_Suc_eq numeral_2_eq_2)
  ultimately show ?thesis using r by simp
qed

text \<open>
  C3 (as amended). Let the merged file's name have no separator and let
  \<open>merge_text_files\<close> return normally. Then afterwards: the merged file holds, in listing
  order, one section for every entry of the directory whose name ends in \<^verbatim>\<open>.txt\<close> and is
  neither the merged file's name nor \<^verbatim>\<open>filenames.txt\<close>; every regular file directly in
  the directory is among the entries; a section carries the file's text as text mode
  reads it (carriage returns translated); every such source was a file before and is
  gone; every other path but the merged file's holds what it held; and the merged file is
  written before the first source is removed. (The call does return normally when the
  listing succeeds and every source is a regular file: \<open>merge_text_files_core\<close>.)
\<close>

theorem merge_text_files_complete:
  assumes "SEP \<notin> set merged_file_name"
    and "merge_text_files directory merged_file_name w = (Inr (), w')"
  shows "lookup_file w' (os_path_join directory (merged_file_name @ ''.txt'')) =
       Some (concat (map (\<lambda>f. section_text f
                            (universal_newlines (stored w (os_path_join directory f))))
               (text_files_of merged_file_name (dir_entries directory w)))) \<and>
     (\<forall>f. f \<in> set (text_files_of merged_file_name (dir_entries directory w)) \<longleftrightarrow>
          f \<in> set (dir_entries directory w) \<and> endswith f ''.txt'' \<and>
          f \<noteq> merged_file_name @ ''.txt'' \<and> f \<noteq> ''filenames.txt'') \<and>
     (\<forall>n. SEP \<notin> set n \<and> n \<noteq> [] \<and> lookup_file w (os_path_join directory n) \<noteq> None \<longrightarrow>
          n \<in> set (dir_entries directory w)) \<and>
     (\<forall>f \<in> set (text_files_of merged_file_name (dir_entries directory w)).
        lookup_file w (os_path_join directory f) \<noteq> None \<and>
        lookup_file w' (os_path_join directory f) = None) \<and>
     (\<forall>q. resolve w q \<noteq> resolve w (os_path_join directory (merged_file_name @ ''.txt'')) \<and>
          resolve w q \<notin> (\<lambda>f. resolve w (os_path_join directory f)) `
             set (text_files_of merged_file_name (dir_entries directory w)) \<longrightarrow>
          lookup_file w' q = lookup_file w q) \<and>
     trace w' = trace w @
       Written (resolve w (os_path_join directory (merged_file_name @ ''.txt''))) #
       map (\<lambda>f. Removed (resolve w (os_path_join directory f)))
         (text_files_of merged_file_name (dir_entries directory w))"
proof -
  from merge_text_files_returned [OF assms] have
    ls: "os_listdir directory w = Inr (dir_entries directory w)" and
    present: "\<forall>f \<in> set (text_files_of merged_file_name (dir_entries directory w)).
                lookup_file w (os_path_join directory f) \<noteq> None"
    by blast+
  from merge_text_files_core [OF assms(1) ls present] obtain v where
    v: "merge_text_files directory merged_file_name w = (Inr (), v)"
     "lookup_file v (os_path_join directory (merged_file_name @ ''.txt'')) =
       Some (concat (map (\<lambda>f. section_text f
                            (universal_newlines (stored w (os_path_join directory f))))
               (text_files_of merged_file_name (dir_entries directory w))))"
     "\<forall>f \<in> set (text_files_of merged_file_name (dir_entries directory w)).
        lookup_file w (os_path_join directory f) \<noteq> None \<and>
        lookup_file v (os_path_join directory f) = None"
     "\<forall>q. resolve w q \<noteq> resolve w (os_path_join directory (merged_file_name @ ''.txt'')) \<and>
          resolve w q \<notin> (\<lambda>f. resolve w (os_path_join directory f)) `
             set (text_files_of merged_file_name (dir_entries directory w)) \<longrightarrow>
          lookup_file v q = lookup_file w q"
     "trace v = trace w @
       Written (resolve w (os_path_join directory (merged_file_name @ ''.txt''))) #
       map (\<lambda>f. Removed (resolve w (os_path_join directory f)))
         (text_files_of merged_file_name (dir_entries directory w))"
    by blast
  have same: "v = w'" using v(1) assms(2) by simp
  have sel: "\<forall>f. f \<in> set (text_files_of merged_file_name (dir_entries directory w)) \<longleftrightarrow>
          f \<in> set (dir_entries directory w) \<and> endswith f ''.txt'' \<and>
          f \<noteq> merged_file_name @ ''.txt'' \<and> f \<noteq> ''filenames.txt''"
    by (simp add: text_files_of_def)
  have all: "\<forall>n. SEP \<notin> set n \<and> n \<noteq> [] \<and> lookup_file w (os_path_join directory n) \<noteq> None \<longrightarrow>
          n \<in> set (dir_entries directory w)"
    using dir_entries_file by blast
  show ?thesis
    using v(2-5) unfolding same by (intro conjI sel all)
qed

text \<open>
  A directory \<^verbatim>\<open>/d\<close> with two transcripts, an older merged file, \<^verbatim>\<open>filenames.txt\<close>, a file
  that is not a text file and a sub-directory.
\<close>

theorem merge_text_files_complete_witness:
  "SEP \<notin> set ''m'' \<and>
   merge_text_files ''/d'' ''m'' (example_world []
      [(''/d/a.txt'', ''x''), (''/d/m.txt'', ''old''), (''/d/filenames.txt'', ''f''),
       (''/d/b.txt'', ''z''), (''/d/c.md'', ''q''), (''/d/sub/e.txt'', ''e'')]) =
     (Inr (), snd (merge_text_files ''/d'' ''m'' (example_world []
      [(''/d/a.txt'', ''x''), (''/d/m.txt'', ''old''), (''/d/filenames.txt'', ''f''),
       (''/d/b.txt'', ''z''), (''/d/c.md'', ''q''), (''/d/sub/e.txt'', ''e'')]))) \<and>
   trace (snd (merge_text_files ''/d'' ''m'' (example_world []
      [(''/d/a.txt'', ''x''), (''/d/m.txt'', ''old''), (''/d/filenames.txt'', ''f''),
       (''/d/b.txt'', ''z''), (''/d/c.md'', ''q''), (''/d/sub/e.txt'', ''e'')]))) =
     [Written ''/d/m.txt'', Removed ''/d/a.txt'', Removed ''/d/b.txt''] \<and>
   map (\<lambda>p. lookup_file (snd (merge_text_files ''/d'' ''m'' (example_world []
      [(''/d/a.txt'', ''x''), (''/d/m.txt'', ''old''), (''/d/filenames.txt'', ''f''),
       (''/d/b.txt'', ''z''), (''/d/c.md'', ''q''), (''/d/sub/e.txt'', ''e'')]))) p)
     [''/d/m.txt'', ''/d/a.txt'', ''/d/b.txt'', ''/d/filenames.txt'', ''/d/c.md'',
      ''/d/sub/e.txt''] =
   [Some (''// a.txt'' @ [NL] @ ''x'' @ [NL, NL] @ ''// b.txt'' @ [NL] @ ''z'' @ [NL, NL]),
    None, None, Some ''f'', Some ''q'', Some ''e'']"
proof -
  let ?w = "example_world []
      [(''/d/a.txt'', ''x''), (''/d/m.txt'', ''old''), (''/d/filenames.txt'', ''f''),
       (''/d/b.txt'', ''z''), (''/d/c.md'', ''q''), (''/d/sub/e.txt'', ''e'')]"
  let ?r = "merge_text_files ''/d'' ''m'' ?w"
  have h1: "SEP \<notin> set ''m''" by simp
  have "fst ?r = Inr ()" by code_simp
  then have h2: "?r = (Inr (), snd ?r)" by (metis prod.collapse)
  have ev: "trace ?w @ Written (resolve ?w (os_path_join ''/d'' (''m'' @ ''.txt''))) #
              map (\<lambda>f. Removed (resolve ?w (os_path_join ''/d'' f)))
                (text_files_of ''m'' (dir_entries ''/d'' ?w)) =
            [Written ''/d/m.txt'', Removed ''/d/a.txt'', Removed ''/d/b.txt'']"
    by code_simp
  from merge_text_files_complete [OF h1 h2]
  have "trace (snd ?r) = trace ?w @ Written (resolve ?w (os_path_join ''/d'' (''m'' @ ''.txt''))) #
              map (\<lambda>f. Removed (resolve ?w (os_path_join ''/d'' f)))
                (text_files_of ''m'' (dir_entries ''/d'' ?w))"
    by blast
  with ev have tr: "trace (snd ?r) = [Written ''/d/m.txt'', Removed ''/d/a.txt'', Removed ''/d/b.txt'']"
    by (simp only:)
  have lk: "map (\<lambda>p. lookup_file (snd ?r) p)
     [''/d/m.txt'', ''/d/a.txt'', ''/d/b.txt'', ''/d/filenames.txt'', ''/d/c.md'',
      ''/d/sub/e.txt''] =
   [Some (''// a.txt'' @ [NL] @ ''x'' @ [NL, NL] @ ''// b.txt'' @ [NL] @ ''z'' @ [NL, NL]),
    None, None, Some ''f'', Some ''q'', Some ''e'']"
    by code_simp
  from h1 h2 tr lk show ?thesis by (intro conjI)
qed

text \<open>
  Where the call does not return normally. A sub-directory whose name ends in \<^verbatim>\<open>.txt\<close> is
  listed and cannot be opened: the call raises at that entry, the merged file holds the
  sections written before it, and nothing is removed. A directory that does not exist
  makes the listing raise, before anything is written.
\<close>

lemma merge_stops_at_directory_example:
  "dir_entries ''/d'' (example_world []
      [(''/d/a.txt'', ''x''), (''/d/notes.txt/inner'', ''i''), (''/d/b.txt'', ''z'')]) =
     [''a.txt'', ''notes.txt'', ''b.txt''] \<and>
   fst (merge_text_files ''/d'' ''m'' (example_world []
      [(''/d/a.txt'', ''x''), (''/d/notes.txt/inner'', ''i''), (''/d/b.txt'', ''z'')]))
     = Inl IsADirectoryError \<and>
   map (\<lambda>p. lookup_file (snd (merge_text_files ''/d'' ''m'' (example_world []
      [(''/d/a.txt'', ''x''), (''/d/notes.txt/inner'', ''i''), (''/d/b.txt'', ''z'')]))) p)
     [''/d/m.txt'', ''/d/a.txt'', ''/d/b.txt''] =
   [Some (''// a.txt'' @ [NL] @ ''x'' @ [NL, NL]), Some ''x'', Some ''z'']"
  by code_simp

lemma merge_missing_directory_example:
  "merge_text_files ''/nowhere'' ''m'' (example_world [] [(''/d/a.txt'', ''x'')]) =
     (Inl FileNotFoundError, example_world [] [(''/d/a.txt'', ''x'')])"
  by code_simp

text \<open>
  Why the name must have no separator: with the directory \<^verbatim>\<open>/tmp\<close> and the name
  \<^verbatim>\<open>/tmp/x\<close> the merged file is \<^verbatim>\<open>/tmp/x.txt\<close>, while the listing names that same file
  \<^verbatim>\<open>x.txt\<close>, which the filter of line 110 lets through. The file is truncated, read
  as a source, and removed in the end.
\<close>

lemma merged_name_with_separator_example:
  "fst (merge_text_files ''/tmp'' ''/tmp/x'' (example_world [] [(''/tmp/x.txt'', ''old'')]))
     = Inr () \<and>
   lookup_file (snd (merge_text_files ''/tmp'' ''/tmp/x''
      (example_world [] [(''/tmp/x.txt'', ''old'')]))) ''/tmp/x.txt'' = None"
  by code_simp

text \<open>
  Against C3 as stated: a source file that holds \<^verbatim>\<open>x\r\ny\<close> does not reach the merged
  file with its content: the merged file holds \<^verbatim>\<open>x\ny\<close> in its section.
\<close>

theorem merge_exact_contents_counterexample:
  "lookup_file (example_world [] [(''/d/a.txt'', ''x'' @ [CR, NL] @ ''y''), (''/d/b.txt'', ''z'')])
     ''/d/a.txt'' = Some (''x'' @ [CR, NL] @ ''y'') \<and>
   lookup_file (snd (merge_text_files ''/d'' ''m''
       (example_world [] [(''/d/a.txt'', ''x'' @ [CR, NL] @ ''y''), (''/d/b.txt'', ''z'')])))
     ''/d/m.txt'' \<noteq>
   Some (''// a.txt'' @ [NL] @ (''x'' @ [CR, NL] @ ''y'') @ [NL, NL] @
         ''// b.txt'' @ [NL] @ ''z'' @ [NL, NL]) \<and>
   lookup_file (snd (merge_text_files ''/d'' ''m''
       (example_world [] [(''/d/a.txt'', ''x'' @ [CR, NL] @ ''y''), (''/d/b.txt'', ''z'')])))
     ''/d/m.txt'' =
   Some (''// a.txt'' @ [NL] @ (''x'' @ [NL] @ ''y'') @ [NL, NL] @
         ''// b.txt'' @ [NL] @ ''z'' @ [NL, NL])"
  by code_simp

text \<open>
  C4. Whatever the download tool prints for the title, the string \<open>get_video_title\<close>
  returns has no reserved character; it has the length of the stripped output, and at
  every position it carries an underscore where the stripped output has a reserved
  character and the stripped output's own character elsewhere.
\<close>

theorem get_video_title_sanitized:
  "set (get_video_title E link) \<inter> set reserved = {} \<and>
   length (get_video_title E link) = length (strip (get_title_stdout E link)) \<and>
   (\<forall>i < length (strip (get_title_stdout E link)).
      get_video_title E link ! i =
        (if strip (get_title_stdout E link) ! i \<in> set reserved then CHR ''_''
         else strip (get_title_stdout E link) ! i))"
  unfolding get_video_title_def sanitize_def Let_def
  using re_sub_class_single_set [OF underscore_not_reserved]
  by (simp add: re_sub_class_single_length re_sub_class_single_nth)

text \<open>The output \<^verbatim>\<open>" a/b?\n"\<close>: stripped to \<^verbatim>\<open>a/b?\<close>, returned as \<^verbatim>\<open>a_b_\<close>.\<close>

theorem get_video_title_sanitized_witness:
  "get_video_title (example_env\<lparr>get_title_stdout := (\<lambda>link. '' a/b?'' @ [NL])\<rparr>) ''L'' = ''a_b_'' \<and>
   strip (get_title_stdout (example_env\<lparr>get_title_stdout := (\<lambda>link. '' a/b?'' @ [NL])\<rparr>) ''L'')
     = ''a/b?'' \<and>
   set (get_video_title (example_env\<lparr>get_title_stdout := (\<lambda>link. '' a/b?'' @ [NL])\<rparr>) ''L'')
     \<inter> set reserved = {}"
proof -
  let ?E = "example_env\<lparr>get_title_stdout := (\<lambda>link. '' a/b?'' @ [NL])\<rparr>"
  have a: "get_video_title ?E ''L'' = ''a_b_''" by code_simp
  have b: "strip (get_title_stdout ?E ''L'') = ''a/b?''" by code_simp
  from get_video_title_sanitized [of ?E "''L''"]
  have "set (get_video_title ?E ''L'') \<inter> set reserved = {}" by blast
  with a b show ?thesis by blast
qed

text \<open>
  C5. The claim holds on the path with a title (see \<open>convert_with_title_result\<close>). With no
  title, or an empty one, the code does something else: recognition succeeds, then line
  90 raises \<^verbatim>\<open>TypeError\<close>, because \<^verbatim>\<open>audio_file\<close> no longer names the path. The
  waveform stays and no file ending in \<^verbatim>\<open>.txt\<close> is written.
\<close>

theorem no_title_transcription_fails:
  assumes "read_file audio_file w = Inr data"
    and "decode_audio E data = Inr wav"
    and "recognize_google E wav = Inr transcript"
    and "\<not> truthy video_title"
  shows "\<exists>w'. convert_audio_to_text E audio_file video_title w = (Inl TypeError, w') \<and>
           lookup_file w' (fst (os_path_splitext audio_file) @ ''.wav'') = Some wav \<and>
           (\<forall>b. lookup_file w' (b @ ''.txt'') = lookup_file w (b @ ''.txt'')) \<and>
           trace w' = trace w @
             [Written (resolve w (fst (os_path_splitext audio_file) @ ''.wav''))]"
proof -
  let ?w1 = "write_file (fst (os_path_splitext audio_file) @ ''.wav'') wav w"
  have a: "convert_audio_to_text E audio_file video_title w = (Inl TypeError, ?w1)"
    using assms by (rule convert_without_title)
  have b: "lookup_file ?w1 (fst (os_path_splitext audio_file) @ ''.wav'') = Some wav"
    by (simp add: lookup_write_file)
  have c: "\<forall>b. lookup_file ?w1 (b @ ''.txt'') = lookup_file w (b @ ''.txt'')"
    by (simp add: txt_unchanged_by_wav)
  have d: "trace ?w1 = trace w @
             [Written (resolve w (fst (os_path_splitext audio_file) @ ''.wav''))]"
    by simp
  show ?thesis
    by (rule exI [of _ ?w1]) (intro conjI a b c d)
qed

text \<open>The call the playlist path makes: \<^verbatim>\<open>convert_audio_to_text("/m/a.mp3")\<close>.\<close>

theorem no_title_transcription_fails_witness:
  "(\<exists>w'. convert_audio_to_text example_env ''/m/a.mp3'' None
            (example_world [] [(''/m/a.mp3'', ''mp3'')]) = (Inl TypeError, w') \<and>
         lookup_file w' ''/m/a.wav'' = Some ''wav'' \<and>
         lookup_file w' ''/m/a.txt'' = None)"
proof -
  let ?w = "example_world [] [(''/m/a.mp3'', ''mp3'')]"
  have h1: "read_file ''/m/a.mp3'' ?w = Inr ''mp3''" by code_simp
  have h2: "decode_audio example_env ''mp3'' = Inr ''wav''" by (simp add: example_env_def)
  have h3: "recognize_google example_env ''wav'' = Inr ''hi''" by (simp add: example_env_def)
  have h4: "\<not> truthy None" by (simp add: truthy_def)
  have s: "fst (os_path_splitext ''/m/a.mp3'') = ''/m/a''" by code_simp
  have n: "lookup_file ?w (''/m/a'' @ ''.txt'') = None" by code_simp
  from no_title_transcription_fails [OF h1 h2 h3 h4] obtain w' where
    r: "convert_audio_to_text example_env ''/m/a.mp3'' None ?w = (Inl TypeError, w')"
    and v: "lookup_file w' (fst (os_path_splitext ''/m/a.mp3'') @ ''.wav'') = Some ''wav''"
    and u: "\<forall>b. lookup_file w' (b @ ''.txt'') = lookup_file ?w (b @ ''.txt'')"
    by blast
  from u have "lookup_file w' (''/m/a'' @ ''.txt'') = lookup_file ?w (''/m/a'' @ ''.txt'')"
    by (rule spec)
  with n have t: "lookup_file w' ''/m/a.txt'' = None" by simp
  from v s have "lookup_file w' ''/m/a.wav'' = Some ''wav''" by simp
  with r t show ?thesis by blast
qed

text \<open>
  C6. When the backend raises \<^verbatim>\<open>RequestError\<close>, \<open>convert_audio_to_text\<close> returns normally
  after printing the error; the waveform is on disk; the waveform is the only file
  written, nothing is removed, and every path ending in \<^verbatim>\<open>.txt\<close> holds what it held.
\<close>

theorem request_error_keeps_waveform:
  assumes "read_file audio_file w = Inr data"
    and "decode_audio E data = Inr wav"
    and "recognize_google E wav = Inl (RequestError msg)"
  shows "\<exists>w'. convert_audio_to_text E audio_file video_title w = (Inr (), w') \<and>
           console w' = console w @ [''Recognition connection failed: '' @ msg] \<and>
           lookup_file w' (fst (os_path_splitext audio_file) @ ''.wav'') = Some wav \<and>
           (\<forall>b. lookup_file w' (b @ ''.txt'') = lookup_file w (b @ ''.txt'')) \<and>
           trace w' = trace w @
             [Written (resolve w (fst (os_path_splitext audio_file) @ ''.wav''))]"
proof -
  let ?w1 = "write_file (fst (os_path_splitext audio_file) @ ''.wav'') wav w"
  let ?w2 = "py_print (''Recognition connection failed: '' @ msg) ?w1"
  have a: "convert_audio_to_text E audio_file video_title w = (Inr (), ?w2)"
    using assms by (rule convert_request_error)
  have p: "console ?w2 = console w @ [''Recognition connection failed: '' @ msg]"
    by (simp del: append.simps)
  have b: "lookup_file ?w2 (fst (os_path_splitext audio_file) @ ''.wav'') = Some wav"
    by (simp add: lookup_write_file del: append.simps)
  have c: "\<forall>b. lookup_file ?w2 (b @ ''.txt'') = lookup_file w (b @ ''.txt'')"
    by (simp add: txt_unchanged_by_wav del: append.simps)
  have d: "trace ?w2 = trace w @
             [Written (resolve w (fst (os_path_splitext audio_file) @ ''.wav''))]"
    by (simp del: append.simps)
  show ?thesis
    by (rule exI [of _ ?w2]) (intro conjI a p b c d)
qed

theorem request_error_keeps_waveform_witness:
  "(\<exists>w'. convert_audio_to_text offline_env ''/m/a.mp3'' (Some ''T'')
            (example_world [] [(''/m/a.mp3'', ''mp3'')]) = (Inr (), w') \<and>
         console w' = [''Recognition connection failed: no route''] \<and>
         lookup_file w' ''/m/a.wav'' = Some ''wav'' \<and>
         lookup_file w' ''T.txt'' = None)"
proof -
  let ?w = "example_world [] [(''/m/a.mp3'', ''mp3'')]"
  have h1: "read_file ''/m/a.mp3'' ?w = Inr ''mp3''" by code_simp
  have h2: "decode_audio offline_env ''mp3'' = Inr ''wav''"
    by (simp add: offline_env_def example_env_def)
  have h3: "recognize_google offline_env ''wav'' = Inl (RequestError ''no route'')"
    by (simp add: offline_env_def example_env_def)
  have s: "fst (os_path_splitext ''/m/a.mp3'') = ''/m/a''" by code_simp
  have n: "lookup_file ?w (''T'' @ ''.txt'') = None" by code_simp
  have c: "console ?w = []" by (simp add: example_world_def)
  from request_error_keeps_waveform [OF h1 h2 h3, of "Some ''T''"] obtain w' where
    r: "convert_audio_to_text offline_env ''/m/a.mp3'' (Some ''T'') ?w = (Inr (), w')"
    and p: "console w' = console ?w @ [''Recognition connection failed: '' @ ''no route'']"
    and v: "lookup_file w' (fst (os_path_splitext ''/m/a.mp3'') @ ''.wav'') = Some ''wav''"
    and u: "\<forall>b. lookup_file w' (b @ ''.txt'') = lookup_file ?w (b @ ''.txt'')"
    by blast
  from u have "lookup_file w' (''T'' @ ''.txt'') = lookup_file ?w (''T'' @ ''.txt'')"
    by (rule spec)
  with n have t: "lookup_file w' ''T.txt'' = None" by simp
  from v s have a: "lookup_file w' ''/m/a.wav'' = Some ''wav''" by simp
  from p c have "console w' = [''Recognition connection failed: no route'']" by simp
  with r t a show ?thesis by blast
qed







text \<open>
  C9. Sanitising is idempotent: replacing the reserved characters of an already
  sanitised string changes nothing.
\<close>

theorem sanitize_idempotent: "sanitize (sanitize s) = sanitize s"
  unfolding sanitize_def
  using re_sub_class_single_set [OF underscore_not_reserved]
  by (simp add: re_sub_class_no_match)

text \<open>
  C10. When \<^verbatim>\<open>int\<close> rejects the first line read, \<open>main\<close> ends with \<^verbatim>\<open>ValueError\<close> and has
  done nothing but print the menu and read that line; the empty line, \<^verbatim>\<open>abc\<close> and a digit
  after the separator \<^verbatim>\<open>0x1F\<close> are rejected. \<^verbatim>\<open>Invalid option\<close> appears on the console only
  when the line is an integer other than 1 and 2, and then the program prints it and ends
  normally.
\<close>

theorem menu_input_not_an_integer:
  "(stdin w = line # rest \<and> py_int line = Inl ValueError \<longrightarrow>
      main E w = (Inl ValueError, w\<lparr>console := console w @ [menu_prompt], stdin := rest\<rparr>)) \<and>
   (''Invalid option'' \<notin> set (console w) \<and>
    ''Invalid option'' \<in> set (console (snd (main E w))) \<longrightarrow>
      (\<exists>l r n. stdin w = l # r \<and> py_int l = Inr n \<and> n \<noteq> 1 \<and> n \<noteq> 2)) \<and>
   (stdin w = line # rest \<and> py_int line = Inr n \<and> n \<noteq> 1 \<and> n \<noteq> 2 \<longrightarrow>
      main E w = (Inr (), py_print ''Invalid option''
                            (w\<lparr>console := console w @ [menu_prompt], stdin := rest\<rparr>))) \<and>
   py_int [] = Inl ValueError \<and> py_int ''abc'' = Inl ValueError \<and>
   py_int [CHR 0x1F, CHR ''1''] = Inl ValueError"
proof (intro conjI impI)
  assume "stdin w = line # rest \<and> py_int line = Inl ValueError"
  then show "main E w = (Inl ValueError, w\<lparr>console := console w @ [menu_prompt], stdin := rest\<rparr>)"
    using main_value_error by blast
next
  assume "''Invalid option'' \<notin> set (console w) \<and>
    ''Invalid option'' \<in> set (console (snd (main E w)))"
  then show "\<exists>l r n. stdin w = l # r \<and> py_int l = Inr n \<and> n \<noteq> 1 \<and> n \<noteq> 2"
    using main_invalid_only [of w E] by blast
next
  assume "stdin w = line # rest \<and> py_int line = Inr n \<and> n \<noteq> 1 \<and> n \<noteq> 2"
  then show "main E w = (Inr (), py_print ''Invalid option''
                            (w\<lparr>console := console w @ [menu_prompt], stdin := rest\<rparr>))"
    using main_invalid_option by blast
next
  show "py_int [] = Inl ValueError" by code_simp
next
  show "py_int ''abc'' = Inl ValueError" by code_simp
next
  show "py_int [CHR 0x1F, CHR ''1''] = Inl ValueError" by code_simp
qed

theorem menu_input_not_an_integer_witness:
  "main example_env (example_world [''abc'', ''L''] []) =
     (Inl ValueError, example_world [''abc'', ''L''] []
        \<lparr>console := console (example_world [''abc'', ''L''] []) @ [menu_prompt], stdin := [''L'']\<rparr>) \<and>
   main example_env (example_world [''3'', ''L''] []) =
     (Inr (), py_print ''Invalid option'' (example_world [''3'', ''L''] []
        \<lparr>console := console (example_world [''3'', ''L''] []) @ [menu_prompt], stdin := [''L'']\<rparr>))"
proof -
  have a: "stdin (example_world [''abc'', ''L''] []) = ''abc'' # [''L''] \<and>
           py_int ''abc'' = Inl ValueError"
    by code_simp
  have b: "stdin (example_world [''3'', ''L''] []) = ''3'' # [''L''] \<and>
           py_int ''3'' = Inr 3 \<and> (3::int) \<noteq> 1 \<and> (3::int) \<noteq> 2"
    by code_simp
  from menu_input_not_an_integer [of "example_world [''abc'', ''L''] []" "''abc''" "[''L'']" example_env] a
  have "main example_env (example_world [''abc'', ''L''] []) =
     (Inl ValueError, example_world [''abc'', ''L''] []
        \<lparr>console := console (example_world [''abc'', ''L''] []) @ [menu_prompt], stdin := [''L'']\<rparr>)"
    by blast
  moreover
  from menu_input_not_an_integer [of "example_world [''3'', ''L''] []" "''3''" "[''L'']" example_env 3] b
  have "main example_env (example_world [''3'', ''L''] []) =
     (Inr (), py_print ''Invalid option'' (example_world [''3'', ''L''] []
        \<lparr>console := console (example_world [''3'', ''L''] []) @ [menu_prompt], stdin := [''L'']\<rparr>))"
    by blast
  ultimately show ?thesis by blast
qed

end
